theory Spec2Isabelle
  imports Main "HOL-Library.Monad_Syntax"
begin

section \<open>Data model (types/epubcheck.ts)\<close>

text \<open>
  The severity of a message is the string found in the validator's JSON output. The
  TypeScript type lists five values, but nothing checks the parsed JSON against it, and
  \<open>mapSeverity\<close> has a default branch for any other value; so the model keeps the string.
\<close>

type_synonym EpubCheckSeverity = string

text \<open>
  Line and column are JavaScript numbers; the validator writes whole numbers (\<open>-1\<close> for
  an unknown position), so they are integers here.
\<close>

record EpubCheckLocation =
  path :: string
  line :: int
  column :: int
  contextSnippet :: "string option"

record EpubCheckMessage =
  ID :: string
  severity :: EpubCheckSeverity
  message :: string
  additionalLocations :: int
  locations :: "EpubCheckLocation list"
  suggestion :: "string option"

record EpubCheckChecker =
  name :: string
  version :: "string option"
  checkerVersion :: "string option"

text \<open>Of the publication metadata only the mandatory fields are kept; no modelled
  function reads any of them.\<close>

record EpubCheckPublication =
  title :: string
  creator :: "string list"
  language :: string

record EpubCheckResult =
  checker :: EpubCheckChecker
  publication :: "EpubCheckPublication option"
  messages :: "EpubCheckMessage list"

record ValidationResult =
  success :: bool
  epubDir :: string
  epubCheckResult :: "EpubCheckResult option"
  error :: "string option"
  epubOutputPath :: "string option"

section \<open>Diagnostics (diagnosticsProvider.ts)\<close>

datatype DiagnosticSeverity = Error | Warning | Information | Hint

record Position =
  posLine :: int
  posCharacter :: int

record Range =
  rangeStart :: Position
  rangeEnd :: Position

record Diagnostic =
  range :: Range
  diagMessage :: string
  diagSeverity :: DiagnosticSeverity
  code :: string
  source :: string

text \<open>The \<open>switch\<close> of \<open>mapSeverity\<close>, case by case, with its \<open>default\<close>.\<close>

definition mapSeverity :: "EpubCheckSeverity \<Rightarrow> DiagnosticSeverity" where
  "mapSeverity sev =
     (if sev = ''FATAL'' \<or> sev = ''ERROR'' then Error
      else if sev = ''WARNING'' then Warning
      else if sev = ''USAGE'' then Information
      else if sev = ''INFO'' then Hint
      else Error)"

text \<open>
  Reading \<open>a[i]\<close> outside a JavaScript array gives \<open>undefined\<close>, and taking
  \<open>.length\<close> of that throws a TypeError. The model makes the failure a value.
\<close>

datatype js_error = TypeError

definition index :: "'a list \<Rightarrow> int \<Rightarrow> 'a option" where
  "index xs i = (if 0 \<le> i \<and> i < int (length xs) then Some (xs ! nat i) else None)"

text \<open>
  \<open>createDiagnostic\<close>: \<open>fileLines\<close> is \<open>None\<close> for JavaScript's \<open>null\<close> (the file
  could not be read). An array, even an empty one, is truthy. A string's \<open>length\<close> is
  its number of code units, here the length of the list. The suggestion is appended
  only when it is a non-empty string (the empty string is falsy).
\<close>

text \<open>The first \<open>if\<close> of \<open>createDiagnostic\<close>, which chooses the end column.\<close>

definition endColumnOf :: "string list option \<Rightarrow> int \<Rightarrow> int \<Rightarrow> js_error + int" where
  "endColumnOf fileLines ln col =
     (case fileLines of
        None \<Rightarrow> Inr (col + 1)
      | Some ls \<Rightarrow>
          if ln < int (length ls)
          then (case index ls ln of
                  None \<Rightarrow> Inl TypeError
                | Some l \<Rightarrow> Inr (int (length l)))
          else Inr (col + 1))"

definition createDiagnostic ::
  "EpubCheckMessage \<Rightarrow> EpubCheckLocation \<Rightarrow> string list option \<Rightarrow> js_error + Diagnostic" where
  "createDiagnostic msg location fileLines =
     (let ln = max 0 (line location - 1);
          col = max 0 (column location - 1)
      in case endColumnOf fileLines ln col of
           Inl e \<Rightarrow> Inl e
         | Inr endColumn0 \<Rightarrow>
             let endColumn = (if endColumn0 \<le> col then col + 1 else endColumn0);
                 rng = \<lparr>rangeStart = \<lparr>posLine = ln, posCharacter = col\<rparr>,
                        rangeEnd = \<lparr>posLine = ln, posCharacter = endColumn\<rparr>\<rparr>;
                 sev = mapSeverity (severity msg);
                 diagnosticMessage =
                   (case suggestion msg of
                      None \<Rightarrow> message msg
                    | Some s \<Rightarrow>
                        if s = [] then message msg
                        else message msg @ [CHR 0x0A] @ ''Suggestion: '' @ s)
             in Inr \<lparr>range = rng, diagMessage = diagnosticMessage, diagSeverity = sev,
                     code = ID msg, source = ''EPUBCheck''\<rparr>)"

section \<open>Environment of the runner: paths, numbers, the file system\<close>

text \<open>
  Node's \<open>path\<close> module is not part of the repository. Its five operations are a
  parameter of every function that uses them: \<open>basenameExt p ext\<close> stands for
  \<open>path.basename(p, ext)\<close>. So is JavaScript's \<open>String.prototype.trim\<close>, whose
  white space is defined over Unicode: it is the sixth field.
\<close>

record pathlib =
  dirname :: "string \<Rightarrow> string"
  basename :: "string \<Rightarrow> string"
  basenameExt :: "string \<Rightarrow> string \<Rightarrow> string"
  extname :: "string \<Rightarrow> string"
  join :: "string \<Rightarrow> string \<Rightarrow> string"
  trim :: "string \<Rightarrow> string"

text \<open>
  A template literal renders a whole number in decimal. Counters, timestamps and the
  timeout in seconds are natural numbers here (a JavaScript number is exact up to
  \<open>2^53\<close>); exit codes are integers.
\<close>

fun showNat :: "nat \<Rightarrow> string" where
  "showNat n =
     (if n < 10 then [''0123456789'' ! n]
      else showNat (n div 10) @ [''0123456789'' ! (n mod 10)])"

declare showNat.simps [simp del]

definition showInt :: "int \<Rightarrow> string" where
  "showInt i = (if i < 0 then ''-'' @ showNat (nat (- i)) else showNat (nat i))"

text \<open>
  The file system: the regular files by path, with their content, and a schedule of
  faults. Every call of \<open>renameSync\<close> or \<open>unlinkSync\<close> consumes one entry of the
  schedule; \<open>True\<close> makes the call throw and leave the files as they are (permission
  denied, device busy, ...). An empty schedule means no further fault. Both calls also
  throw when the source file does not exist. \<open>renameSync\<close> replaces a file at the
  destination, as rename(2) does.
\<close>

record fsys =
  files :: "string \<rightharpoonup> string"
  faults :: "bool list"

definition existsSync :: "string \<Rightarrow> fsys \<Rightarrow> bool" where
  "existsSync p fs = (files fs p \<noteq> None)"

definition nextFault :: "fsys \<Rightarrow> bool" where
  "nextFault fs = (case faults fs of [] \<Rightarrow> False | b # _ \<Rightarrow> b)"

definition consume :: "fsys \<Rightarrow> fsys" where
  "consume fs = fs\<lparr>faults := drop 1 (faults fs)\<rparr>"

text \<open>The boolean tells whether the call returned (\<open>True\<close>) or threw (\<open>False\<close>).\<close>

definition renameSync :: "string \<Rightarrow> string \<Rightarrow> fsys \<Rightarrow> bool \<times> fsys" where
  "renameSync src dst fs =
     (case files fs src of
        None \<Rightarrow> (False, consume fs)
      | Some c \<Rightarrow>
          if nextFault fs then (False, consume fs)
          else (True, (consume fs)\<lparr>files := (files fs)(src := None, dst \<mapsto> c)\<rparr>))"

definition unlinkSync :: "string \<Rightarrow> fsys \<Rightarrow> bool \<times> fsys" where
  "unlinkSync p fs =
     (case files fs p of
        None \<Rightarrow> (False, consume fs)
      | Some c \<Rightarrow>
          if nextFault fs then (False, consume fs)
          else (True, (consume fs)\<lparr>files := (files fs)(p := None)\<rparr>))"

text \<open>\<open>readFileSync\<close> throws when the file is absent: \<open>None\<close>. (Any other failure to
  read would take the same \<open>catch\<close> branch of the caller.)\<close>

definition readFileSync :: "string \<Rightarrow> fsys \<Rightarrow> string option" where
  "readFileSync p fs = files fs p"

section \<open>The runner (epubcheckRunner.ts)\<close>

subsection \<open>Helpers on the file system\<close>

definition cleanupTmpFile :: "string \<Rightarrow> fsys \<Rightarrow> fsys" where
  "cleanupTmpFile filePath fs =
     (if existsSync filePath fs then snd (unlinkSync filePath fs) else fs)"

definition getDefaultEpubPath :: "pathlib \<Rightarrow> string \<Rightarrow> string" where
  "getDefaultEpubPath P dir =
     (let folderName = basename P dir
      in join P (dirname P dir) (folderName @ ''.epub''))"

text \<open>
  \<open>protectExistingEpub\<close>: \<open>!epubPath\<close> holds for \<open>undefined\<close> and for the empty
  string. \<open>now\<close> is the reading of \<open>Date.now()\<close>.
\<close>

definition protectExistingEpub ::
  "pathlib \<Rightarrow> nat \<Rightarrow> string option \<Rightarrow> fsys \<Rightarrow> string option \<times> fsys" where
  "protectExistingEpub P now epubPath fs =
     (case epubPath of
        None \<Rightarrow> (None, fs)
      | Some p \<Rightarrow>
          if p = [] \<or> \<not> existsSync p fs then (None, fs)
          else
            (let dir = dirname P p;
                 tmpName = ''.epubcheck-protect-'' @ showNat now @ extname P p;
                 tmpPath = join P dir tmpName
             in case renameSync p tmpPath fs of
                  (True, fs') \<Rightarrow> (Some tmpPath, fs')
                | (False, fs') \<Rightarrow> (None, fs')))"

text \<open>The candidate of the loop: \<open>path.join(dir, `${base} (${counter})${ext}`)\<close>.\<close>

definition candidateName :: "pathlib \<Rightarrow> string \<Rightarrow> string \<Rightarrow> string \<Rightarrow> nat \<Rightarrow> string" where
  "candidateName P dir base ext counter =
     join P dir (base @ '' ('' @ showNat counter @ '')'' @ ext)"

text \<open>
  \<open>getUniquePath\<close>: the \<open>do ... while\<close> loop tries the candidates from counter 2 on
  and may run forever when every candidate exists; a run that does not return is
  \<open>None\<close>.
\<close>

partial_function (option) uniqueLoop ::
  "pathlib \<Rightarrow> fsys \<Rightarrow> string \<Rightarrow> string \<Rightarrow> string \<Rightarrow> nat \<Rightarrow> string option" where
  "uniqueLoop P fs dir base ext counter =
     (if existsSync (candidateName P dir base ext counter) fs
      then uniqueLoop P fs dir base ext (counter + 1)
      else Some (candidateName P dir base ext counter))"

definition getUniquePath :: "pathlib \<Rightarrow> string \<Rightarrow> fsys \<Rightarrow> string option" where
  "getUniquePath P filePath fs =
     (if \<not> existsSync filePath fs then Some filePath
      else
        (let dir = dirname P filePath;
             ext = extname P filePath;
             base = basenameExt P filePath ext
         in uniqueLoop P fs dir base ext 2))"

text \<open>
  \<open>restoreProtectedEpub\<close>: nothing in the \<open>try\<close> block but \<open>renameSync\<close> can throw.
  In the \<open>catch\<close> block a second failure is ignored.
\<close>

definition restoreProtectedEpub ::
  "pathlib \<Rightarrow> string option \<Rightarrow> string \<Rightarrow> fsys \<Rightarrow> fsys option" where
  "restoreProtectedEpub P protectedPath targetPath fs =
     (case protectedPath of
        None \<Rightarrow> Some fs
      | Some pp \<Rightarrow>
          if pp = [] \<or> \<not> existsSync pp fs then Some fs
          else
            (case getUniquePath P targetPath fs of
               None \<Rightarrow> None
             | Some restorePath \<Rightarrow>
                 (case renameSync pp restorePath fs of
                    (True, fs1) \<Rightarrow> Some fs1
                  | (False, fs1) \<Rightarrow>
                      if \<not> existsSync targetPath fs1
                      then Some (snd (renameSync pp targetPath fs1))
                      else Some fs1)))"

text \<open>\<open>insidePath\<close> of \<open>findGeneratedEpub\<close>: the artifact inside the project directory.\<close>

definition insidePathOf :: "pathlib \<Rightarrow> string \<Rightarrow> string" where
  "insidePathOf P dir = (let folderName = basename P dir in join P dir (folderName @ ''.epub''))"

definition findGeneratedEpub ::
  "pathlib \<Rightarrow> string \<Rightarrow> string option \<Rightarrow> string option \<Rightarrow> fsys
     \<Rightarrow> (string option \<times> fsys) option" where
  "findGeneratedEpub P dir targetPath protectedPath fs =
     (case targetPath of
        None \<Rightarrow> Some (None, fs)
      | Some tp \<Rightarrow>
          if tp = [] then Some (None, fs)
          else
            (let insidePath = insidePathOf P dir
             in if existsSync insidePath fs
                then (case renameSync insidePath tp fs of
                        (False, fs1) \<Rightarrow>
                          map_option (Pair (Some insidePath))
                            (restoreProtectedEpub P protectedPath tp fs1)
                      | (True, fs1) \<Rightarrow>
                          map_option (Pair (Some tp))
                            (restoreProtectedEpub P protectedPath tp fs1))
                else if existsSync tp fs
                then map_option (Pair (Some tp)) (restoreProtectedEpub P protectedPath tp fs)
                else map_option (Pair None) (restoreProtectedEpub P protectedPath tp fs)))"

subsection \<open>The child process and the promise\<close>

text \<open>
  The settings read through \<open>Configuration\<close>, the directory given by \<open>os.tmpdir()\<close>,
  the two readings of \<open>Date.now()\<close> (for the result file and for the backup name), and
  \<open>spawn\<close>: what the child process writes to the files, and the events it emits, in
  order, given the executable, the argument list and the timeout in milliseconds.
\<close>

record errInfo =
  errCode :: "string option"
  killed :: bool
  errMessage :: string

datatype procEvent = StderrData string | ErrorEvent errInfo | CloseEvent "int option"

record environment =
  getJarPath :: string
  getJavaPath :: string
  getTimeout :: nat
  tmpdir :: string
  nowResult :: nat
  nowProtect :: nat
  spawn :: "string \<Rightarrow> string list \<Rightarrow> nat \<Rightarrow> (string \<rightharpoonup> string)
              \<Rightarrow> (string \<rightharpoonup> string) \<times> procEvent list"

text \<open>
  \<open>JSON.parse\<close> is a parameter. It throws (\<open>SyntaxError\<close>) or returns a value; the
  value is \<open>None\<close> when its \<open>messages\<close> cannot be searched (\<open>result.messages.some\<close>
  throws), and a result otherwise.
\<close>

datatype parsed = SyntaxError | Value "EpubCheckResult option"

text \<open>The variables of \<open>run\<close> that its event handlers close over.\<close>

record closure =
  projectDir :: string
  save :: bool
  jsonTmpFile :: string
  defaultEpubPath :: "string option"
  protectedPath :: "string option"
  javaPath :: string
  timeout :: nat

text \<open>
  The state the handlers share: the file system, the text collected from standard
  error, the flag \<open>timedOut\<close>, and the value of the promise. \<open>resolve\<close> settles the
  promise once; a later call changes nothing.
\<close>

record runState =
  disk :: fsys
  stderrBuf :: string
  timedOut :: bool
  resolved :: "ValidationResult option"

definition resolve :: "ValidationResult \<Rightarrow> runState \<Rightarrow> runState" where
  "resolve r st = (case resolved st of None \<Rightarrow> st\<lparr>resolved := Some r\<rparr> | Some _ \<Rightarrow> st)"

definition timedOutResult :: "string \<Rightarrow> nat \<Rightarrow> ValidationResult" where
  "timedOutResult dir secs =
     \<lparr>success = False, epubDir = dir, epubCheckResult = None,
      error = Some (''EPUBCheck timed out after '' @ showNat secs @
        '' seconds. You can increase the timeout in settings (epubcheck.timeout).''),
      epubOutputPath = None\<rparr>"

definition javaNotFoundResult :: "string \<Rightarrow> string \<Rightarrow> ValidationResult" where
  "javaNotFoundResult dir java =
     \<lparr>success = False, epubDir = dir, epubCheckResult = None,
      error = Some (''Java not found at '' @ [CHR 0x22] @ java @ [CHR 0x22] @ ''. '' @
        ''Please install Java 11 or above, or configure the path in settings (epubcheck.javaPath).'' @
        [CHR 0x0A, CHR 0x0A] @ ''Download Java: https://adoptium.net/''),
      epubOutputPath = None\<rparr>"

definition failedToRunResult :: "string \<Rightarrow> string \<Rightarrow> ValidationResult" where
  "failedToRunResult dir msg =
     \<lparr>success = False, epubDir = dir, epubCheckResult = None,
      error = Some (''Failed to run EPUBCheck: '' @ msg), epubOutputPath = None\<rparr>"

subsection \<open>The handlers of \<open>run\<close>\<close>

text \<open>The \<open>catch\<close> block of the \<open>close\<close> handler.\<close>

definition parseFailure ::
  "pathlib \<Rightarrow> closure \<Rightarrow> int option \<Rightarrow> runState \<Rightarrow> runState" where
  "parseFailure P c exitCode st =
     (let st1 = st\<lparr>disk := cleanupTmpFile (jsonTmpFile c) (disk st)\<rparr>;
          errorMsg0 = ''EPUBCheck failed to produce valid output.'';
          errorMsg1 = (if stderrBuf st \<noteq> []
                       then errorMsg0 @ [CHR 0x0A] @ ''Details: '' @ trim P (stderrBuf st)
                       else errorMsg0);
          errorMsg = (case exitCode of
                        None \<Rightarrow> errorMsg1
                      | Some k \<Rightarrow>
                          if k \<noteq> 0 then errorMsg1 @ [CHR 0x0A] @ ''Exit code: '' @ showInt k
                          else errorMsg1)
      in resolve \<lparr>success = False, epubDir = projectDir c, epubCheckResult = None,
                  error = Some errorMsg, epubOutputPath = None\<rparr> st1)"

definition hasErrors :: "EpubCheckResult \<Rightarrow> bool" where
  "hasErrors result =
     list_ex (\<lambda>m. severity m = ''FATAL'' \<or> severity m = ''ERROR'') (messages result)"

definition onClose ::
  "pathlib \<Rightarrow> (string \<Rightarrow> parsed) \<Rightarrow> closure \<Rightarrow> int option \<Rightarrow> runState \<Rightarrow> runState option" where
  "onClose P parseJson c exitCode st =
     (if timedOut st \<or> exitCode = None
      then Some (resolve (timedOutResult (projectDir c) (timeout c))
                   (st\<lparr>disk := cleanupTmpFile (jsonTmpFile c) (disk st)\<rparr>))
      else
        (case readFileSync (jsonTmpFile c) (disk st) of
           None \<Rightarrow> Some (parseFailure P c exitCode st)
         | Some jsonContent \<Rightarrow>
             (case parseJson jsonContent of
                SyntaxError \<Rightarrow> Some (parseFailure P c exitCode st)
              | Value v \<Rightarrow>
                  (let st1 = st\<lparr>disk := cleanupTmpFile (jsonTmpFile c) (disk st)\<rparr>
                   in case v of
                        None \<Rightarrow> Some (parseFailure P c exitCode st1)
                      | Some result \<Rightarrow>
                          (case (if save c
                                 then findGeneratedEpub P (projectDir c) (defaultEpubPath c)
                                        (protectedPath c) (disk st1)
                                 else Some (None, disk st1)) of
                             None \<Rightarrow> None
                           | Some (epubOutput, fs') \<Rightarrow>
                               Some (resolve
                                 \<lparr>success = \<not> hasErrors result, epubDir = projectDir c,
                                  epubCheckResult = Some result, error = None,
                                  epubOutputPath = epubOutput\<rparr>
                                 (st1\<lparr>disk := fs'\<rparr>)))))))"

definition onError :: "closure \<Rightarrow> errInfo \<Rightarrow> runState \<Rightarrow> runState" where
  "onError c err st =
     (let st1 = st\<lparr>disk := cleanupTmpFile (jsonTmpFile c) (disk st)\<rparr>
      in if errCode err = Some ''ENOENT''
         then resolve (javaNotFoundResult (projectDir c) (javaPath c)) st1
         else if errCode err = Some ''ETIMEDOUT'' \<or> killed err
         then st1\<lparr>timedOut := True\<rparr>
         else resolve (failedToRunResult (projectDir c) (errMessage err)) st1)"

fun dispatch ::
  "pathlib \<Rightarrow> (string \<Rightarrow> parsed) \<Rightarrow> closure \<Rightarrow> procEvent list \<Rightarrow> runState \<Rightarrow> runState option" where
  "dispatch P parseJson c [] st = Some st"
| "dispatch P parseJson c (StderrData d # es) st =
     dispatch P parseJson c es (st\<lparr>stderrBuf := stderrBuf st @ d\<rparr>)"
| "dispatch P parseJson c (ErrorEvent err # es) st =
     dispatch P parseJson c es (onError c err st)"
| "dispatch P parseJson c (CloseEvent exitCode # es) st =
     (case onClose P parseJson c exitCode st of
        None \<Rightarrow> None
      | Some st' \<Rightarrow> dispatch P parseJson c es st')"

text \<open>
  \<open>run\<close> up to the call of \<open>spawn\<close>: the variables its handlers close over, the
  argument list, and the file system after the existing artifact was set aside.
\<close>

definition runSetup ::
  "pathlib \<Rightarrow> environment \<Rightarrow> string \<Rightarrow> bool \<Rightarrow> fsys \<Rightarrow> closure \<times> string list \<times> fsys" where
  "runSetup P env dir sv fs =
     (let jar = getJarPath env;
          java = getJavaPath env;
          secs = getTimeout env;
          jsonTmp = join P (tmpdir env) (''epubcheck-'' @ showNat (nowResult env) @ ''.json'');
          defaultPath = (if sv then Some (getDefaultEpubPath P dir) else None);
          (protected, fs1) =
            (if sv then protectExistingEpub P (nowProtect env) defaultPath fs else (None, fs));
          args = [''-jar'', jar, ''-mode'', ''exp'', dir, ''--json'', jsonTmp]
                   @ (if sv then [''--save''] else [])
      in (\<lparr>projectDir = dir, save = sv, jsonTmpFile = jsonTmp,
           defaultEpubPath = defaultPath, protectedPath = protected,
           javaPath = java, timeout = secs\<rparr>, args, fs1))"

text \<open>
  \<open>run\<close>: the child process is spawned, writes what it writes, and its events are
  handled in order. The value is \<open>None\<close> when a handler does not return; otherwise the
  value of the promise (\<open>None\<close> while it is pending) and the file system after the last
  event.
\<close>

definition run ::
  "pathlib \<Rightarrow> (string \<Rightarrow> parsed) \<Rightarrow> environment \<Rightarrow> string \<Rightarrow> bool \<Rightarrow> fsys
     \<Rightarrow> (ValidationResult option \<times> fsys) option" where
  "run P parseJson env dir sv fs =
     (case runSetup P env dir sv fs of
        (c, args, fs1) \<Rightarrow>
          (case spawn env (javaPath c) args (timeout c * 1000) (files fs1) of
             (written, evs) \<Rightarrow>
               map_option (\<lambda>st. (resolved st, disk st))
                 (dispatch P parseJson c evs
                    \<lparr>disk = fs1\<lparr>files := written\<rparr>, stderrBuf = [], timedOut = False,
                     resolved = None\<rparr>)))"

subsection \<open>\<open>generateOnly\<close>\<close>









subsection \<open>A path library for concrete runs\<close>

text \<open>
  POSIX paths in normal form (absolute, no \<open>.\<close> or \<open>..\<close> segment, no doubled or
  trailing slash), on which Node's operations are plain string operations, and
  \<open>trim\<close> on ASCII text, where the white space is the six ASCII characters. It serves
  the concrete runs below; the general theorems hold for every path library.
\<close>

definition posixBasename :: "string \<Rightarrow> string" where
  "posixBasename p = rev (takeWhile (\<lambda>ch. ch \<noteq> CHR ''/'') (rev p))"

definition posixDirname :: "string \<Rightarrow> string" where
  "posixDirname p =
     (let d = rev (drop 1 (dropWhile (\<lambda>ch. ch \<noteq> CHR ''/'') (rev p)))
      in if CHR ''/'' \<notin> set p then ''.'' else if d = [] then ''/'' else d)"

definition posixExtname :: "string \<Rightarrow> string" where
  "posixExtname p =
     (let b = posixBasename p
      in if CHR ''.'' \<in> set (drop 1 b)
         then CHR ''.'' # rev (takeWhile (\<lambda>ch. ch \<noteq> CHR ''.'') (rev b))
         else [])"

definition posixBasenameExt :: "string \<Rightarrow> string \<Rightarrow> string" where
  "posixBasenameExt p ext =
     (let b = posixBasename p
      in if ext \<noteq> [] \<and> length ext < length b \<and> drop (length b - length ext) b = ext
         then take (length b - length ext) b
         else b)"

definition posixJoin :: "string \<Rightarrow> string \<Rightarrow> string" where
  "posixJoin a b = (if a = [] then b else if last a = CHR ''/'' then a @ b else a @ ''/'' @ b)"

definition isWhiteSpace :: "char \<Rightarrow> bool" where
  "isWhiteSpace c =
     (c \<in> set [CHR 0x09, CHR 0x0A, CHR 0x0B, CHR 0x0C, CHR 0x0D, CHR 0x20])"

definition asciiTrim :: "string \<Rightarrow> string" where
  "asciiTrim s = rev (dropWhile isWhiteSpace (rev (dropWhile isWhiteSpace s)))"

definition posix :: pathlib where
  "posix = \<lparr>dirname = posixDirname, basename = posixBasename, basenameExt = posixBasenameExt,
            extname = posixExtname, join = posixJoin, trim = asciiTrim\<rparr>"

subsection \<open>Concrete file systems\<close>

text \<open>A directory \<open>/t\<close> where \<open>book.epub\<close> and \<open>book (2).epub\<close> exist, beside a backup.\<close>

definition occupiedFs :: fsys where
  "occupiedFs = \<lparr>files = [''/t/book.epub'' \<mapsto> ''new'', ''/t/book (2).epub'' \<mapsto> ''older'',
                    ''/t/.protected.epub'' \<mapsto> ''original''], faults = []\<rparr>"

text \<open>The project \<open>/t/my-book\<close> after the tool wrote the artifact inside it, with the
  backup of an earlier artifact; the argument is the schedule of faults.\<close>

definition generatedFs :: "bool list \<Rightarrow> fsys" where
  "generatedFs flt =
     \<lparr>files = [''/t/my-book/my-book.epub'' \<mapsto> ''generated'',
               ''/t/.epubcheck-protect-42.epub'' \<mapsto> ''original''], faults = flt\<rparr>"

text \<open>Settings, clock readings and a child process that writes \<open>w\<close> and emits \<open>evs\<close>.\<close>

definition stubEnv ::
  "((string \<rightharpoonup> string) \<Rightarrow> (string \<rightharpoonup> string)) \<Rightarrow> procEvent list \<Rightarrow> environment" where
  "stubEnv w evs =
     \<lparr>getJarPath = ''/opt/epubcheck.jar'', getJavaPath = ''java'', getTimeout = 120,
      tmpdir = ''/tmp'', nowResult = 41, nowProtect = 42,
      spawn = (\<lambda>java args ms m. (w m, evs))\<rparr>"

text \<open>The project \<open>/t/my-book\<close> with an earlier artifact at the canonical path.\<close>

definition existingFs :: fsys where
  "existingFs = \<lparr>files = [''/t/my-book.epub'' \<mapsto> ''ORIGINAL''], faults = []\<rparr>"

text \<open>
  The run of \<open>/t/my-book\<close> on \<open>existingFs\<close>: the variables of the handlers, the file
  system once the artifact is set aside, what the tool writes (the result file and the
  artifact inside the project, the artifact alone, or nothing), and a parsed result
  with one message of the given severity.
\<close>

definition demoClosure :: closure where
  "demoClosure =
     \<lparr>projectDir = ''/t/my-book'', save = True, jsonTmpFile = ''/tmp/epubcheck-41.json'',
      defaultEpubPath = Some ''/t/my-book.epub'',
      protectedPath = Some ''/t/.epubcheck-protect-42.epub'', javaPath = ''java'',
      timeout = 120\<rparr>"

definition protectedFs :: fsys where
  "protectedFs = \<lparr>files = [''/t/.epubcheck-protect-42.epub'' \<mapsto> ''ORIGINAL''], faults = []\<rparr>"

definition toolWrites :: "(string \<rightharpoonup> string) \<Rightarrow> (string \<rightharpoonup> string)" where
  "toolWrites m = m(''/tmp/epubcheck-41.json'' \<mapsto> ''{}'',
                    ''/t/my-book/my-book.epub'' \<mapsto> ''generated'')"

definition demoResult :: "string \<Rightarrow> EpubCheckResult" where
  "demoResult sev =
     \<lparr>checker = \<lparr>name = ''epubcheck'', version = None, checkerVersion = None\<rparr>,
      publication = None,
      messages = [\<lparr>ID = ''RSC-005'', severity = sev, message = ''bad'', additionalLocations = 0,
                   locations = [], suggestion = None\<rparr>]\<rparr>"

definition writesNothing :: "(string \<rightharpoonup> string) \<Rightarrow> (string \<rightharpoonup> string)" where
  "writesNothing m = m"






section \<open>Diagnostic ranges\<close>

lemma endColumnOf_cases:
  "0 \<le> ln \<Longrightarrow> endColumnOf fl ln col =
     Inr (case fl of None \<Rightarrow> col + 1
          | Some ls \<Rightarrow> if ln < int (length ls) then int (length (ls ! nat ln)) else col + 1)"
  by (simp add: endColumnOf_def index_def split: option.splits)

lemma endColumnOf_beyond:
  assumes "int (length ls) \<le> max 0 (line location - 1)"
  shows "endColumnOf (Some ls) (max 0 (line location - 1)) col = Inr (col + 1)"
proof -
  have "\<not> max 0 (line location - 1) < int (length ls)"
    using assms by linarith
  then show ?thesis
    by (simp add: endColumnOf_def del: max_less_iff_conj)
qed

lemma createDiagnostic_Inr:
  assumes "endColumnOf fileLines (max 0 (line location - 1)) (max 0 (column location - 1)) = Inr e"
  shows "\<exists>m s. createDiagnostic msg location fileLines =
     Inr \<lparr>range = \<lparr>rangeStart = \<lparr>posLine = max 0 (line location - 1),
                                   posCharacter = max 0 (column location - 1)\<rparr>,
                    rangeEnd = \<lparr>posLine = max 0 (line location - 1),
                                 posCharacter = (if e \<le> max 0 (column location - 1)
                                    then max 0 (column location - 1) + 1 else e)\<rparr>\<rparr>,
           diagMessage = m, diagSeverity = s, code = ID msg, source = ''EPUBCheck''\<rparr>"
  unfolding createDiagnostic_def Let_def using assms by simp

lemma createDiagnostic_same_end:
  assumes "endColumnOf fl (max 0 (line location - 1)) (max 0 (column location - 1)) =
           endColumnOf fl' (max 0 (line location - 1)) (max 0 (column location - 1))"
  shows "createDiagnostic msg location fl = createDiagnostic msg location fl'"
  unfolding createDiagnostic_def Let_def using assms by simp

text \<open>
  Claim C3. For every message, location and file content (read or not),
  \<open>createDiagnostic\<close> returns a diagnostic. Its range starts at the 1-based line and
  column minus one, each clamped to 0, and ends on the same line. The end column is the
  length of that line when the file was read, the line exists and its length exceeds
  the start column; in every other case it is the start column plus one. So the end
  column is always greater than the start column. A message at line 5, column 3 against
  a file whose fifth line has 40 characters gets the range (4,2) to (4,40).
\<close>

theorem createDiagnostic_range:
  fixes msg :: EpubCheckMessage and location :: EpubCheckLocation
  defines "ln \<equiv> max 0 (line location - 1)"
      and "col \<equiv> max 0 (column location - 1)"
  shows "\<exists>d. createDiagnostic msg location fileLines = Inr d \<and>
           rangeStart (range d) = \<lparr>posLine = ln, posCharacter = col\<rparr> \<and>
           posLine (rangeEnd (range d)) = ln \<and>
           posCharacter (rangeEnd (range d)) =
             (case fileLines of
                None \<Rightarrow> col + 1
              | Some ls \<Rightarrow>
                  if ln < int (length ls) \<and> col < int (length (ls ! nat ln))
                  then int (length (ls ! nat ln)) else col + 1) \<and>
           posCharacter (rangeStart (range d)) < posCharacter (rangeEnd (range d)) \<and>
           (line location = 5 \<and> column location = 3 \<and>
            (\<exists>ls. fileLines = Some ls \<and> 4 < length ls \<and> length (ls ! 4) = 40)
              \<longrightarrow> range d = \<lparr>rangeStart = \<lparr>posLine = 4, posCharacter = 2\<rparr>,
                             rangeEnd = \<lparr>posLine = 4, posCharacter = 40\<rparr>\<rparr>)"
proof -
  have ln0: "0 \<le> ln" by (simp add: ln_def)
  define e where "e = (case fileLines of None \<Rightarrow> col + 1
          | Some ls \<Rightarrow> if ln < int (length ls) then int (length (ls ! nat ln)) else col + 1)"
  have ec: "endColumnOf fileLines ln col = Inr e"
    unfolding e_def by (rule endColumnOf_cases[OF ln0])
  obtain m s where d: "createDiagnostic msg location fileLines =
     Inr \<lparr>range = \<lparr>rangeStart = \<lparr>posLine = ln, posCharacter = col\<rparr>,
                    rangeEnd = \<lparr>posLine = ln,
                                 posCharacter = (if e \<le> col then col + 1 else e)\<rparr>\<rparr>,
           diagMessage = m, diagSeverity = s, code = ID msg, source = ''EPUBCheck''\<rparr>"
    using createDiagnostic_Inr[of fileLines location e msg] ec
    unfolding ln_def col_def by blast
  have endc: "(if e \<le> col then col + 1 else e) =
             (case fileLines of
                None \<Rightarrow> col + 1
              | Some ls \<Rightarrow>
                  if ln < int (length ls) \<and> col < int (length (ls ! nat ln))
                  then int (length (ls ! nat ln)) else col + 1)"
    unfolding e_def by (simp split: option.splits)
  have scen: "line location = 5 \<and> column location = 3 \<and>
            (\<exists>ls. fileLines = Some ls \<and> 4 < length ls \<and> length (ls ! 4) = 40)
      \<longrightarrow> ln = 4 \<and> col = 2 \<and> (if e \<le> col then col + 1 else e) = 40"
    unfolding e_def ln_def col_def by auto
  have gt: "col < (if e \<le> col then col + 1 else e)" by simp
  show ?thesis
    unfolding d using endc scen gt by (simp del: max.bounded_iff)
qed

theorem createDiagnostic_range_witness:
  "createDiagnostic
     \<lparr>ID = ''RSC-005'', severity = ''ERROR'', message = ''bad'', additionalLocations = 0,
      locations = [], suggestion = None\<rparr>
     \<lparr>path = ''a.xhtml'', line = 5, column = 3, contextSnippet = None\<rparr>
     (Some (replicate 4 [] @ [replicate 40 (CHR ''x'')]))
   = Inr \<lparr>range = \<lparr>rangeStart = \<lparr>posLine = 4, posCharacter = 2\<rparr>,
                      rangeEnd = \<lparr>posLine = 4, posCharacter = 40\<rparr>\<rparr>,
           diagMessage = ''bad'', diagSeverity = Error, code = ''RSC-005'',
           source = ''EPUBCheck''\<rparr>"
  using createDiagnostic_range [of
     "\<lparr>ID = ''RSC-005'', severity = ''ERROR'', message = ''bad'', additionalLocations = 0,
      locations = [], suggestion = None\<rparr>"
     "\<lparr>path = ''a.xhtml'', line = 5, column = 3, contextSnippet = None\<rparr>"
     "Some (replicate 4 [] @ [replicate 40 (CHR ''x'')])"]
  by (simp add: createDiagnostic_def endColumnOf_def index_def mapSeverity_def nth_append)

text \<open>
  Claim C10. \<open>createDiagnostic\<close> never fails with the TypeError of an access outside
  the array of lines. When the lines are available but the 0-based line index is at or
  beyond their number, the lines are not consulted: the diagnostic is the one produced
  for an unreadable file, with the end column at the start column plus one, and the
  range is not empty.
\<close>

theorem createDiagnostic_line_out_of_range:
  fixes msg :: EpubCheckMessage and location :: EpubCheckLocation
  shows "(\<forall>err. createDiagnostic msg location fileLines \<noteq> Inl err) \<and>
   (\<forall>ls. fileLines = Some ls \<and> int (length ls) \<le> max 0 (line location - 1) \<longrightarrow>
      createDiagnostic msg location fileLines = createDiagnostic msg location None \<and>
      (\<exists>d. createDiagnostic msg location fileLines = Inr d \<and>
           posCharacter (rangeEnd (range d)) = max 0 (column location - 1) + 1 \<and>
           posCharacter (rangeStart (range d)) < posCharacter (rangeEnd (range d))))"
proof (intro conjI allI impI)
  fix err
  have "0 \<le> max 0 (line location - 1)" by simp
  from endColumnOf_cases[OF this] createDiagnostic_Inr[of fileLines location _ msg]
  show "createDiagnostic msg location fileLines \<noteq> Inl err" by fastforce
next
  fix ls
  assume h: "fileLines = Some ls \<and> int (length ls) \<le> max 0 (line location - 1)"
  then have e: "endColumnOf fileLines (max 0 (line location - 1)) (max 0 (column location - 1))
          = Inr (max 0 (column location - 1) + 1)"
    by (simp only: endColumnOf_beyond)
  have n: "endColumnOf None (max 0 (line location - 1)) (max 0 (column location - 1))
          = Inr (max 0 (column location - 1) + 1)"
    by (simp add: endColumnOf_def)
  show "createDiagnostic msg location fileLines = createDiagnostic msg location None"
    by (rule createDiagnostic_same_end) (simp only: e n)
  from createDiagnostic_Inr[OF e, of msg]
  show "\<exists>d. createDiagnostic msg location fileLines = Inr d \<and>
           posCharacter (rangeEnd (range d)) = max 0 (column location - 1) + 1 \<and>
           posCharacter (rangeStart (range d)) < posCharacter (rangeEnd (range d))"
    by auto
qed

theorem createDiagnostic_line_out_of_range_witness:
  "createDiagnostic
     \<lparr>ID = ''RSC-005'', severity = ''WARNING'', message = ''bad'', additionalLocations = 0,
      locations = [], suggestion = Some ''fix it''\<rparr>
     \<lparr>path = ''a.xhtml'', line = 100, column = 7, contextSnippet = None\<rparr>
     (Some [''abc'', ''de''])
   = Inr \<lparr>range = \<lparr>rangeStart = \<lparr>posLine = 99, posCharacter = 6\<rparr>,
                      rangeEnd = \<lparr>posLine = 99, posCharacter = 7\<rparr>\<rparr>,
           diagMessage = ''bad'' @ [CHR 0x0A] @ ''Suggestion: fix it'', diagSeverity = Warning,
           code = ''RSC-005'', source = ''EPUBCheck''\<rparr>"
  using createDiagnostic_line_out_of_range [of
     "\<lparr>ID = ''RSC-005'', severity = ''WARNING'', message = ''bad'', additionalLocations = 0,
      locations = [], suggestion = Some ''fix it''\<rparr>"
     "\<lparr>path = ''a.xhtml'', line = 100, column = 7, contextSnippet = None\<rparr>"
     "Some [''abc'', ''de'']"]
  by (simp add: createDiagnostic_def endColumnOf_def index_def mapSeverity_def)

section \<open>Unique names\<close>

lemma showNat_nonempty: "showNat n \<noteq> []"
  by (subst showNat.simps) simp

lemma digit_inj:
  assumes "a < 10" "b < 10" "''0123456789'' ! a = ''0123456789'' ! b"
  shows "a = b"
proof -
  have "distinct ''0123456789''" by simp
  moreover have "a < length ''0123456789''" "b < length ''0123456789''" using assms by simp_all
  ultimately show ?thesis using assms(3) by (simp only: nth_eq_iff_index_eq)
qed

lemma showNat_inj: "showNat n = showNat m \<Longrightarrow> n = m"
proof (induction n arbitrary: m rule: showNat.induct)
  case (1 n)
  show ?case
  proof (cases "n < 10")
    case small: True
    show ?thesis
    proof (cases "m < 10")
      case True
      with small "1.prems" show ?thesis
        by (subst (asm) showNat.simps, subst (asm) (2) showNat.simps) (simp add: digit_inj)
    next
      case False
      with small "1.prems" show ?thesis
        by (subst (asm) showNat.simps, subst (asm) (2) showNat.simps)
           (simp add: showNat_nonempty[symmetric])
    qed
  next
    case big: False
    show ?thesis
    proof (cases "m < 10")
      case True
      with big "1.prems" show ?thesis
        by (subst (asm) showNat.simps, subst (asm) (2) showNat.simps) (simp add: showNat_nonempty)
    next
      case False
      have "showNat n = showNat (n div 10) @ [''0123456789'' ! (n mod 10)]"
        using big by (subst showNat.simps) simp
      moreover have "showNat m = showNat (m div 10) @ [''0123456789'' ! (m mod 10)]"
        using False by (subst showNat.simps) simp
      ultimately have eq: "showNat (n div 10) = showNat (m div 10)"
        and dg: "''0123456789'' ! (n mod 10) = ''0123456789'' ! (m mod 10)"
        using "1.prems" by simp_all
      from "1.IH"[OF big eq] have "n div 10 = m div 10" .
      moreover from dg have "n mod 10 = m mod 10" by (intro digit_inj) simp_all
      ultimately show ?thesis by (metis div_mult_mod_eq)
    qed
  qed
qed

text \<open>The loop stops at the first counter whose candidate does not exist.\<close>

lemma uniqueLoop_first_free:
  assumes "c \<le> n"
      and "\<forall>k\<in>{c..<n}. existsSync (candidateName P dir base ext k) fs"
      and "\<not> existsSync (candidateName P dir base ext n) fs"
  shows "uniqueLoop P fs dir base ext c = Some (candidateName P dir base ext n)"
  using assms
proof (induction "n - c" arbitrary: c)
  case 0
  then have "c = n" by simp
  with "0.prems"(3) show ?case by (subst uniqueLoop.simps) simp
next
  case (Suc d)
  then have lt: "c < n" by simp
  with Suc.prems(2) have ex: "existsSync (candidateName P dir base ext c) fs" by simp
  have "uniqueLoop P fs dir base ext (c + 1) = Some (candidateName P dir base ext n)"
    using Suc.hyps(2) lt Suc.prems(2,3) by (intro Suc.hyps(1)) auto
  with ex show ?case by (subst uniqueLoop.simps) simp
qed

text \<open>Whatever the loop returns is a name that does not exist.\<close>

lemma uniqueLoop_free:
  assumes "uniqueLoop P fs dir base ext c = Some q"
  shows "\<not> existsSync q fs"
proof -
  let ?Q = "\<lambda>x (q::string). \<not> existsSync q (snd (fst (fst (fst (fst x)))))"
  have "?Q (((((P, fs), dir), base), ext), c) q"
    by (rule uniqueLoop.raw_induct[where Pa = ?Q, OF _ assms]) (auto split: if_splits)
  then show ?thesis by simp
qed

text \<open>Among infinitely many distinct names, finitely many files leave one free.\<close>

lemma some_candidate_free:
  fixes c :: nat
  assumes fin: "finite (dom m)" and inj: "inj_on f {c..}"
  shows "\<exists>n\<ge>c. m (f n) = None \<and> (\<forall>k\<in>{c..<n}. m (f k) \<noteq> None)"
proof -
  have "infinite {c..}" by (rule infinite_Ici)
  with inj have "infinite (f ` {c..})" using finite_imageD by blast
  then have "\<not> f ` {c..} \<subseteq> dom m" using fin finite_subset by blast
  then obtain n0 where n0: "c \<le> n0" "m (f n0) = None" by auto
  define n where "n = (LEAST n. c \<le> n \<and> m (f n) = None)"
  have a: "c \<le> n \<and> m (f n) = None"
    unfolding n_def by (rule LeastI[of "\<lambda>n. c \<le> n \<and> m (f n) = None" n0]) (simp add: n0)
  have b: "m (f k) \<noteq> None" if "c \<le> k" "k < n" for k
    using not_less_Least[of k "\<lambda>n. c \<le> n \<and> m (f n) = None"] that
    unfolding n_def by simp
  from a b show ?thesis by auto
qed

section \<open>Files after a rename or a restore\<close>

lemma renameSync_ok:
  "files fs src = Some c \<Longrightarrow> \<not> nextFault fs \<Longrightarrow>
   renameSync src dst fs = (True, (consume fs)\<lparr>files := (files fs)(src := None, dst \<mapsto> c)\<rparr>)"
  by (simp add: renameSync_def)

lemma uniqueLoop_candidate:
  assumes "uniqueLoop P fs dir base ext c = Some q"
  shows "\<exists>n\<ge>c. q = candidateName P dir base ext n"
proof -
  let ?Q = "\<lambda>x (q::string). case x of (((((P, fs :: fsys), dir), base), ext), c :: nat) \<Rightarrow>
              \<exists>n\<ge>c. q = candidateName P dir base ext n"
  have "?Q (((((P, fs), dir), base), ext), c) q"
    by (rule uniqueLoop.raw_induct[where Pa = ?Q, OF _ assms])
       (auto split: if_splits, metis Suc_leD)
  then show ?thesis by simp
qed

lemma getUniquePath_free:
  "getUniquePath P p fs = Some q \<Longrightarrow> files fs q = None"
  using uniqueLoop_free[of P fs _ _ _ 2 q]
  by (auto simp: getUniquePath_def Let_def existsSync_def split: if_splits)

lemma getUniquePath_name:
  "getUniquePath P p fs = Some q \<Longrightarrow>
   q = p \<or> q \<in> candidateName P (dirname P p) (basenameExt P p (extname P p)) (extname P p) ` {2..}"
  using uniqueLoop_candidate[of P fs _ _ _ 2 q]
  by (auto simp: getUniquePath_def Let_def split: if_splits)

lemma getUniquePath_returns:
  assumes "finite (dom (files fs))"
      and "inj_on (candidateName P (dirname P p) (basenameExt P p (extname P p)) (extname P p)) {2..}"
  shows "\<exists>q. getUniquePath P p fs = Some q"
proof (cases "existsSync p fs")
  case False
  then show ?thesis by (simp add: getUniquePath_def)
next
  case True
  let ?cand = "candidateName P (dirname P p) (basenameExt P p (extname P p)) (extname P p)"
  from some_candidate_free[OF assms]
  obtain n where n: "2 \<le> n" "files fs (?cand n) = None"
    "\<forall>k\<in>{2..<n}. files fs (?cand k) \<noteq> None" by blast
  then have "uniqueLoop P fs (dirname P p) (basenameExt P p (extname P p)) (extname P p) 2
              = Some (?cand n)"
    by (intro uniqueLoop_first_free) (simp_all add: existsSync_def)
  with True show ?thesis by (simp add: getUniquePath_def Let_def)
qed

lemma renameSync_fst: "fst (renameSync src dst fs) = (files fs src \<noteq> None \<and> \<not> nextFault fs)"
  by (simp add: renameSync_def split: option.splits)

lemma renameSync_files:
  "files (snd (renameSync src dst fs)) =
     (if files fs src \<noteq> None \<and> \<not> nextFault fs
      then (files fs)(src := None, dst := files fs src) else files fs)"
  by (auto simp: renameSync_def consume_def split: option.splits)

lemma renameSync_finite:
  "finite (dom (files fs)) \<Longrightarrow> finite (dom (files (snd (renameSync src dst fs))))"
  by (simp add: renameSync_files)

text \<open>restore: returns; keeps every existing file other than the backup; adds at most one
  name, the target or one of its candidates.\<close>

lemma restoreProtectedEpub_returns:
  assumes "finite (dom (files fs))"
      and "inj_on (candidateName P (dirname P tp) (basenameExt P tp (extname P tp)) (extname P tp)) {2..}"
  shows "\<exists>fs'. restoreProtectedEpub P pp tp fs = Some fs'"
proof -
  from getUniquePath_returns[OF assms] obtain q where "getUniquePath P tp fs = Some q" ..
  then show ?thesis
    by (simp add: restoreProtectedEpub_def split: option.splits prod.splits bool.splits)
qed

lemma restoreProtectedEpub_keeps:
  assumes "restoreProtectedEpub P pp tp fs = Some fs'"
      and "files fs x \<noteq> None" and "pp \<noteq> Some x"
  shows "files fs' x = files fs x"
proof (cases "\<exists>p. pp = Some p \<and> p \<noteq> [] \<and> existsSync p fs")
  case False
  with assms(1) have "fs' = fs"
    by (auto simp: restoreProtectedEpub_def split: option.splits)
  then show ?thesis by simp
next
  case True
  then obtain p where p: "pp = Some p" "p \<noteq> []" "existsSync p fs" by blast
  with assms(1) obtain q where q: "getUniquePath P tp fs = Some q"
    by (auto simp: restoreProtectedEpub_def split: option.splits)
  then have qfree: "files fs q = None" by (rule getUniquePath_free)
  with assms(2) have xq: "x \<noteq> q" by auto
  from assms(3) p have xp: "x \<noteq> p" by simp
  show ?thesis
  proof (cases "fst (renameSync p q fs)")
    case True
    with assms(1) p q have "fs' = snd (renameSync p q fs)"
      by (auto simp: restoreProtectedEpub_def split: prod.splits)
    with xq xp show ?thesis by (simp add: renameSync_files)
  next
    case False
    let ?fs1 = "snd (renameSync p q fs)"
    from False have f1: "files ?fs1 = files fs" by (auto simp: renameSync_files renameSync_fst)
    from False assms(1) p q have
      fs': "fs' = (if \<not> existsSync tp ?fs1 then snd (renameSync p tp ?fs1) else ?fs1)"
      by (auto simp: restoreProtectedEpub_def split: prod.splits)
    show ?thesis
    proof (cases "existsSync tp ?fs1")
      case True
      with fs' f1 show ?thesis by simp
    next
      case free: False
      with f1 assms(2) have xt: "x \<noteq> tp" by (auto simp: existsSync_def)
      from renameSync_files[of p tp ?fs1] xp xt
      have "files (snd (renameSync p tp ?fs1)) x = files ?fs1 x" by simp
      with fs' free f1 show ?thesis by simp
    qed
  qed
qed

lemma restoreProtectedEpub_adds:
  assumes "restoreProtectedEpub P pp tp fs = Some fs'"
      and "files fs x = None" and "x \<noteq> tp"
      and "x \<notin> candidateName P (dirname P tp) (basenameExt P tp (extname P tp)) (extname P tp) ` {2..}"
  shows "files fs' x = None"
proof (cases "\<exists>p. pp = Some p \<and> p \<noteq> [] \<and> existsSync p fs")
  case False
  with assms(1) have "fs' = fs"
    by (auto simp: restoreProtectedEpub_def split: option.splits)
  with assms(2) show ?thesis by simp
next
  case True
  then obtain p where p: "pp = Some p" "p \<noteq> []" "existsSync p fs" by blast
  with assms(1) obtain q where q: "getUniquePath P tp fs = Some q"
    by (auto simp: restoreProtectedEpub_def split: option.splits)
  from getUniquePath_name[OF q] assms(3,4) have xq: "x \<noteq> q" by auto
  let ?fs1 = "snd (renameSync p q fs)"
  from renameSync_files[of p q fs] xq assms(2)
  have f1: "files ?fs1 x = None" by simp
  from renameSync_files[of p tp ?fs1] assms(3) f1
  have f2: "files (snd (renameSync p tp ?fs1)) x = None" by simp
  from assms(1) p q have
    "fs' = ?fs1 \<or> fs' = snd (renameSync p tp ?fs1)"
    by (auto simp: restoreProtectedEpub_def split: prod.splits bool.splits if_splits)
  with f1 f2 show ?thesis by auto
qed

section \<open>Disambiguated names\<close>

lemma candidate_book: "candidateName posix (dirname posix ''/t/book.epub'')
      (basenameExt posix ''/t/book.epub'' (extname posix ''/t/book.epub''))
      (extname posix ''/t/book.epub'') n = ''/t/book ('' @ showNat n @ '').epub''"
  by (simp add: candidateName_def posix_def posixDirname_def posixBasenameExt_def posixBasename_def posixExtname_def posixJoin_def)

text \<open>
  Claim C6. Write \<open>cand n\<close> for the candidate \<open>{base} ({n}){ext}\<close> of \<open>p\<close> in the
  directory of \<open>p\<close>. \<open>getUniquePath p\<close> returns \<open>p\<close> when no file exists at \<open>p\<close>;
  when one does, it returns the first candidate, counted from 2, at which no file
  exists. Whatever it returns names no existing file. It does return on every finite
  file system when distinct counters give distinct candidates. A restore whose rename
  succeeds removes the backup and adds exactly the returned name, which was absent.
\<close>

theorem getUniquePath_first_free:
  fixes P :: pathlib and p :: string and fs :: fsys
  defines "cand \<equiv> candidateName P (dirname P p) (basenameExt P p (extname P p)) (extname P p)"
  shows
   "(\<not> existsSync p fs \<longrightarrow> getUniquePath P p fs = Some p) \<and>
    (\<forall>n. existsSync p fs \<and> 2 \<le> n \<and> (\<forall>k\<in>{2..<n}. existsSync (cand k) fs) \<and>
         \<not> existsSync (cand n) fs \<longrightarrow> getUniquePath P p fs = Some (cand n)) \<and>
    (\<forall>q. getUniquePath P p fs = Some q \<longrightarrow> \<not> existsSync q fs) \<and>
    (finite (dom (files fs)) \<and> inj_on cand {2..} \<longrightarrow> (\<exists>q. getUniquePath P p fs = Some q)) \<and>
    (\<forall>pp c q. pp \<noteq> [] \<and> files fs pp = Some c \<and> \<not> nextFault fs \<and>
          getUniquePath P p fs = Some q \<longrightarrow>
       (\<exists>fs'. restoreProtectedEpub P (Some pp) p fs = Some fs' \<and>
              files fs' = (files fs)(pp := None, q \<mapsto> c) \<and> files fs q = None))"
proof (intro conjI allI impI)
  assume "\<not> existsSync p fs"
  then show "getUniquePath P p fs = Some p" by (simp add: getUniquePath_def)
next
  fix n
  assume h: "existsSync p fs \<and> 2 \<le> n \<and> (\<forall>k\<in>{2..<n}. existsSync (cand k) fs) \<and>
         \<not> existsSync (cand n) fs"
  then have "uniqueLoop P fs (dirname P p) (basenameExt P p (extname P p)) (extname P p) 2
              = Some (cand n)"
    unfolding cand_def by (intro uniqueLoop_first_free) simp_all
  with h show "getUniquePath P p fs = Some (cand n)"
    by (simp add: getUniquePath_def Let_def)
next
  fix q
  assume "getUniquePath P p fs = Some q"
  then show "\<not> existsSync q fs"
    by (auto simp: getUniquePath_def Let_def split: if_splits dest: uniqueLoop_free)
next
  assume h: "finite (dom (files fs)) \<and> inj_on cand {2..}"
  show "\<exists>q. getUniquePath P p fs = Some q"
  proof (cases "existsSync p fs")
    case False
    then show ?thesis by (simp add: getUniquePath_def)
  next
    case True
    from some_candidate_free[of "files fs" cand 2] h
    obtain n where n: "2 \<le> n" "files fs (cand n) = None"
      "\<forall>k\<in>{2..<n}. files fs (cand k) \<noteq> None" by blast
    then have "uniqueLoop P fs (dirname P p) (basenameExt P p (extname P p)) (extname P p) 2
              = Some (cand n)"
      unfolding cand_def by (intro uniqueLoop_first_free) (simp_all add: existsSync_def)
    with True show ?thesis by (simp add: getUniquePath_def Let_def)
  qed
next
  fix pp c q
  assume h: "pp \<noteq> [] \<and> files fs pp = Some c \<and> \<not> nextFault fs \<and>
          getUniquePath P p fs = Some q"
  then have free: "\<not> existsSync q fs"
    by (auto simp: getUniquePath_def Let_def split: if_splits dest: uniqueLoop_free)
  from h have "restoreProtectedEpub P (Some pp) p fs =
      Some ((consume fs)\<lparr>files := (files fs)(pp := None, q \<mapsto> c)\<rparr>)"
    by (simp add: restoreProtectedEpub_def existsSync_def renameSync_ok)
  with free show "\<exists>fs'. restoreProtectedEpub P (Some pp) p fs = Some fs' \<and>
              files fs' = (files fs)(pp := None, q \<mapsto> c) \<and> files fs q = None"
    by (simp add: existsSync_def)
qed

lemma showNat_2: "showNat 2 = ''2''" by (simp add: showNat.simps)
lemma showNat_3: "showNat 3 = ''3''" by (simp add: showNat.simps)

theorem getUniquePath_first_free_witness:
  "existsSync ''/t/book.epub'' occupiedFs \<and>
   getUniquePath posix ''/t/book.epub'' occupiedFs = Some ''/t/book (3).epub'' \<and>
   finite (dom (files occupiedFs)) \<and>
   inj_on (candidateName posix (dirname posix ''/t/book.epub'')
      (basenameExt posix ''/t/book.epub'' (extname posix ''/t/book.epub''))
      (extname posix ''/t/book.epub'')) {2..} \<and>
   (\<exists>fs'. restoreProtectedEpub posix (Some ''/t/.protected.epub'') ''/t/book.epub'' occupiedFs = Some fs' \<and>
      files fs' ''/t/book (3).epub'' = Some ''original'' \<and>
      files fs' ''/t/.protected.epub'' = None \<and>
      files fs' ''/t/book.epub'' = Some ''new'' \<and>
      files fs' ''/t/book (2).epub'' = Some ''older'')"
proof -
  note T = getUniquePath_first_free[where P = posix and p = "''/t/book.epub''" and fs = occupiedFs,
             unfolded candidate_book]
  have ex: "existsSync ''/t/book.epub'' occupiedFs" by (simp add: existsSync_def occupiedFs_def)
  have two: "{2..<3::nat} = {2}" by auto
  have pre: "(\<forall>k\<in>{2..<3}. existsSync (''/t/book ('' @ showNat k @ '').epub'') occupiedFs)"
    unfolding two by (simp add: existsSync_def occupiedFs_def showNat_2)
  have fr: "\<not> existsSync (''/t/book ('' @ showNat 3 @ '').epub'') occupiedFs"
    by (simp add: existsSync_def occupiedFs_def showNat_3)
  have g: "getUniquePath posix ''/t/book.epub'' occupiedFs = Some ''/t/book (3).epub''"
    using T[THEN conjunct2, THEN conjunct1, rule_format, of 3] ex pre fr
    unfolding showNat_3 by simp
  have fin: "finite (dom (files occupiedFs))" by (simp add: occupiedFs_def)
  have inj: "inj_on (candidateName posix (dirname posix ''/t/book.epub'')
      (basenameExt posix ''/t/book.epub'' (extname posix ''/t/book.epub''))
      (extname posix ''/t/book.epub'')) {2..}"
    by (rule inj_onI) (simp add: candidate_book showNat_inj)
  have pp: "files occupiedFs ''/t/.protected.epub'' = Some ''original''" "\<not> nextFault occupiedFs"
    by (simp_all add: occupiedFs_def nextFault_def)
  from T[THEN conjunct2, THEN conjunct2, THEN conjunct2, THEN conjunct2, rule_format,
         of "''/t/.protected.epub''" "''original''" "''/t/book (3).epub''"] g pp
  obtain fs' where
    r: "restoreProtectedEpub posix (Some ''/t/.protected.epub'') ''/t/book.epub'' occupiedFs = Some fs'"
       "files fs' = (files occupiedFs)(''/t/.protected.epub'' := None, ''/t/book (3).epub'' \<mapsto> ''original'')"
    by blast
  have "files fs' ''/t/book (3).epub'' = Some ''original'' \<and>
      files fs' ''/t/.protected.epub'' = None \<and>
      files fs' ''/t/book.epub'' = Some ''new'' \<and>
      files fs' ''/t/book (2).epub'' = Some ''older''"
    by (simp add: r(2) occupiedFs_def)
  with r(1) ex g fin inj show ?thesis
    by blast
qed


section \<open>Locating the generated artifact\<close>

text \<open>
  Claim C7. For a non-empty target path, on a finite file system where distinct
  counters give distinct candidate names, \<open>findGeneratedEpub\<close> returns, and: when a file
  exists at the inside path \<open>join dir (basename dir + ".epub")\<close> and the move to the
  target succeeds, it returns the target path; when the move fails, it returns the
  inside path; when no file is inside but one exists at the target, it returns the
  target; otherwise it returns nothing. When the backup is at neither of the two paths,
  the returned path holds the artifact's content afterwards; after a move the inside
  path is empty (unless it is the target or one of the candidate names).
\<close>

theorem findGeneratedEpub_reports:
  fixes P :: pathlib and dir tp :: string and pp :: "string option" and fs :: fsys
  defines "inside \<equiv> insidePathOf P dir"
      and "cand \<equiv> candidateName P (dirname P tp) (basenameExt P tp (extname P tp)) (extname P tp)"
  assumes tp: "tp \<noteq> []" and fin: "finite (dom (files fs))" and inj: "inj_on cand {2..}"
  shows "\<exists>fs'.
     findGeneratedEpub P dir (Some tp) pp fs =
       Some (if existsSync inside fs
             then (if fst (renameSync inside tp fs) then Some tp else Some inside)
             else if existsSync tp fs then Some tp else None, fs') \<and>
     (pp \<noteq> Some tp \<and> pp \<noteq> Some inside \<longrightarrow>
        (existsSync inside fs \<and> fst (renameSync inside tp fs) \<longrightarrow>
           files fs' tp = files fs inside) \<and>
        (existsSync inside fs \<and> \<not> fst (renameSync inside tp fs) \<longrightarrow>
           files fs' inside = files fs inside) \<and>
        (\<not> existsSync inside fs \<and> existsSync tp fs \<longrightarrow> files fs' tp = files fs tp)) \<and>
     (existsSync inside fs \<and> fst (renameSync inside tp fs) \<and> inside \<noteq> tp \<and>
      inside \<notin> cand ` {2..} \<longrightarrow> files fs' inside = None)"
proof (cases "existsSync inside fs")
  case noInside: False
  from restoreProtectedEpub_returns[OF fin inj[unfolded cand_def], of pp]
  obtain fs' where r: "restoreProtectedEpub P pp tp fs = Some fs'" ..
  have res: "findGeneratedEpub P dir (Some tp) pp fs =
       Some (if existsSync tp fs then Some tp else None, fs')"
    using noInside tp r by (simp add: findGeneratedEpub_def inside_def Let_def)
  have keep: "files fs' tp = files fs tp" if "pp \<noteq> Some tp" "existsSync tp fs"
    using restoreProtectedEpub_keeps[OF r, of tp] that by (simp add: existsSync_def)
  from res keep noInside show ?thesis by auto
next
  case yesInside: True
  let ?fs1 = "snd (renameSync inside tp fs)"
  have fin1: "finite (dom (files ?fs1))" using fin by (rule renameSync_finite)
  from restoreProtectedEpub_returns[OF fin1 inj[unfolded cand_def], of pp]
  obtain fs' where r: "restoreProtectedEpub P pp tp ?fs1 = Some fs'" ..
  have res: "findGeneratedEpub P dir (Some tp) pp fs =
       Some (if fst (renameSync inside tp fs) then Some tp else Some inside, fs')"
    using yesInside tp r
    by (cases "renameSync inside tp fs")
       (auto simp: findGeneratedEpub_def inside_def Let_def)
  show ?thesis
  proof (cases "fst (renameSync inside tp fs)")
    case ok: True
    then have f1: "files ?fs1 = (files fs)(inside := None, tp := files fs inside)"
      by (simp add: renameSync_files renameSync_fst)
    have a: "files fs' tp = files fs inside" if "pp \<noteq> Some tp"
      using restoreProtectedEpub_keeps[OF r, of tp] that yesInside f1
      by (simp add: existsSync_def)
    have b: "files fs' inside = None" if "inside \<noteq> tp" "inside \<notin> cand ` {2..}"
      using restoreProtectedEpub_adds[OF r, of inside] that f1
      by (simp add: cand_def)
    from res ok yesInside a b show ?thesis by auto
  next
    case failed: False
    then have f1: "files ?fs1 = files fs"
      by (auto simp: renameSync_files renameSync_fst)
    have a: "files fs' inside = files fs inside" if "pp \<noteq> Some inside"
      using restoreProtectedEpub_keeps[OF r, of inside] that yesInside f1
      by (simp add: existsSync_def)
    from res failed yesInside a show ?thesis by auto
  qed
qed


lemma candidate_my_book: "candidateName posix (dirname posix ''/t/my-book.epub'')
      (basenameExt posix ''/t/my-book.epub'' (extname posix ''/t/my-book.epub''))
      (extname posix ''/t/my-book.epub'') n = ''/t/my-book ('' @ showNat n @ '').epub''"
  by (simp add: candidateName_def posix_def posixDirname_def posixBasenameExt_def posixBasename_def posixExtname_def posixJoin_def)

lemma inside_my_book: "insidePathOf posix ''/t/my-book'' = ''/t/my-book/my-book.epub''"
  by (simp add: insidePathOf_def posix_def posixBasename_def posixJoin_def)

theorem findGeneratedEpub_reports_witness:
  "(\<exists>fs'. findGeneratedEpub posix ''/t/my-book'' (Some ''/t/my-book.epub'')
            (Some ''/t/.epubcheck-protect-42.epub'') (generatedFs []) =
            Some (Some ''/t/my-book.epub'', fs') \<and>
          files fs' ''/t/my-book.epub'' = Some ''generated'' \<and>
          files fs' ''/t/my-book/my-book.epub'' = None) \<and>
   (\<exists>fs'. findGeneratedEpub posix ''/t/my-book'' (Some ''/t/my-book.epub'')
            (Some ''/t/.epubcheck-protect-42.epub'') (generatedFs [True]) =
            Some (Some ''/t/my-book/my-book.epub'', fs') \<and>
          files fs' ''/t/my-book/my-book.epub'' = Some ''generated'')"
proof -
  have inj: "inj_on (candidateName posix (dirname posix ''/t/my-book.epub'')
      (basenameExt posix ''/t/my-book.epub'' (extname posix ''/t/my-book.epub''))
      (extname posix ''/t/my-book.epub'')) {2..}"
    by (rule inj_onI) (simp add: candidate_my_book showNat_inj)
  have fin: "finite (dom (files (generatedFs flt)))" for flt
    by (simp add: generatedFs_def)
  have ex: "existsSync ''/t/my-book/my-book.epub'' (generatedFs flt)" for flt
    by (simp add: existsSync_def generatedFs_def)
  have ok: "fst (renameSync ''/t/my-book/my-book.epub'' ''/t/my-book.epub'' (generatedFs []))"
    by (simp add: renameSync_fst generatedFs_def nextFault_def)
  have ko: "\<not> fst (renameSync ''/t/my-book/my-book.epub'' ''/t/my-book.epub'' (generatedFs [True]))"
    by (simp add: renameSync_fst generatedFs_def nextFault_def)
  have src: "files (generatedFs flt) ''/t/my-book/my-book.epub'' = Some ''generated''" for flt
    by (simp add: generatedFs_def)
  have notcand: "''/t/my-book/my-book.epub'' \<notin> candidateName posix (dirname posix ''/t/my-book.epub'')
      (basenameExt posix ''/t/my-book.epub'' (extname posix ''/t/my-book.epub''))
      (extname posix ''/t/my-book.epub'') ` {2..}"
    by (simp add: candidate_my_book image_iff)
  note T = findGeneratedEpub_reports[where P = posix and dir = "''/t/my-book''"
      and tp = "''/t/my-book.epub''" and pp = "Some ''/t/.epubcheck-protect-42.epub''",
      unfolded inside_my_book, OF _ fin inj]
  from T[of "[]"] ex[of "[]"] ok src[of "[]"] notcand
  have A: "\<exists>fs'. findGeneratedEpub posix ''/t/my-book'' (Some ''/t/my-book.epub'')
            (Some ''/t/.epubcheck-protect-42.epub'') (generatedFs []) =
            Some (Some ''/t/my-book.epub'', fs') \<and>
          files fs' ''/t/my-book.epub'' = Some ''generated'' \<and>
          files fs' ''/t/my-book/my-book.epub'' = None"
    by simp
  from T[of "[True]"] ex[of "[True]"] ko src[of "[True]"]
  have B: "\<exists>fs'. findGeneratedEpub posix ''/t/my-book'' (Some ''/t/my-book.epub'')
            (Some ''/t/.epubcheck-protect-42.epub'') (generatedFs [True]) =
            Some (Some ''/t/my-book/my-book.epub'', fs') \<and>
          files fs' ''/t/my-book/my-book.epub'' = Some ''generated''"
    by simp
  from A B show ?thesis by (rule conjI)
qed


section \<open>Outcomes of \<open>run\<close>\<close>

lemma cleanupTmpFile_files:
  "files (cleanupTmpFile p fs) = files fs \<or> files (cleanupTmpFile p fs) = (files fs)(p := None)"
  by (auto simp: cleanupTmpFile_def unlinkSync_def consume_def existsSync_def split: option.splits)

lemma cleanupTmpFile_finite:
  "finite (dom (files fs)) \<Longrightarrow> finite (dom (files (cleanupTmpFile p fs)))"
  using cleanupTmpFile_files[of p fs] by auto

lemma no_fault_next: "True \<notin> set (faults fs) \<Longrightarrow> \<not> nextFault fs"
  by (cases "faults fs") (auto simp: nextFault_def)

lemma no_fault_consume: "True \<notin> set (faults fs) \<Longrightarrow> True \<notin> set (faults (consume fs))"
  by (auto simp: consume_def dest: in_set_dropD)


lemma protectExistingEpub_no_faults:
  assumes "True \<notin> set (faults fs)"
  shows "True \<notin> set (faults (snd (protectExistingEpub P now ep fs)))"
  using assms no_fault_next[OF assms] no_fault_consume[OF assms]
  by (auto simp: protectExistingEpub_def renameSync_def consume_def Let_def
           split: option.splits)

lemma runSetup_fields:
  assumes "runSetup P env dir sv fs = (c, args, fs1)"
  shows "projectDir c = dir" "save c = sv" "timeout c = getTimeout env"
    "defaultEpubPath c = (if sv then Some (getDefaultEpubPath P dir) else None)"
    "True \<notin> set (faults fs) \<Longrightarrow> True \<notin> set (faults fs1)"
  using assms protectExistingEpub_no_faults[of fs P "nowProtect env" "Some (getDefaultEpubPath P dir)"]
  by (auto simp: runSetup_def Let_def split: prod.splits if_splits)

lemma dispatch_stderr:
  "dispatch P pj c (map StderrData chunks @ rest) st =
   dispatch P pj c rest (st\<lparr>stderrBuf := stderrBuf st @ concat chunks\<rparr>)"
  by (induction chunks arbitrary: st) simp_all

lemma dispatch_close:
  "dispatch P pj c [CloseEvent exitCode] st = onClose P pj c exitCode st"
  by (simp split: option.splits)

lemma findGeneratedEpub_returns:
  assumes "\<forall>tp. targetPath = Some tp \<longrightarrow> finite (dom (files fs)) \<and>
     inj_on (candidateName P (dirname P tp) (basenameExt P tp (extname P tp)) (extname P tp)) {2..}"
  shows "\<exists>out fs'. findGeneratedEpub P dir targetPath pp fs = Some (out, fs')"
proof (cases targetPath)
  case None
  then show ?thesis by (simp add: findGeneratedEpub_def)
next
  case (Some tp)
  with assms have fin: "finite (dom (files fs))"
    and inj: "inj_on (candidateName P (dirname P tp) (basenameExt P tp (extname P tp)) (extname P tp)) {2..}"
    by simp_all
  let ?fs1 = "snd (renameSync (insidePathOf P dir) tp fs)"
  have fin1: "finite (dom (files ?fs1))" using fin by (rule renameSync_finite)
  from restoreProtectedEpub_returns[OF fin inj, of pp]
  obtain fa where a: "restoreProtectedEpub P pp tp fs = Some fa" ..
  from restoreProtectedEpub_returns[OF fin1 inj, of pp]
  obtain fb where b: "restoreProtectedEpub P pp tp ?fs1 = Some fb" ..
  show ?thesis
    using Some a b
    by (cases "renameSync (insidePathOf P dir) tp fs")
       (auto simp: findGeneratedEpub_def Let_def split: bool.splits)
qed

lemma onClose_parsed:
  assumes "\<not> timedOut st"
      and "readFileSync (jsonTmpFile c) (disk st) = Some content"
      and "parseJson content = Value (Some result)"
      and "(if save c
            then findGeneratedEpub P (projectDir c) (defaultEpubPath c) (protectedPath c)
                   (cleanupTmpFile (jsonTmpFile c) (disk st))
            else Some (None, cleanupTmpFile (jsonTmpFile c) (disk st))) = Some (out, fs')"
  shows "onClose P parseJson c (Some k) st =
     Some (resolve \<lparr>success = \<not> hasErrors result, epubDir = projectDir c,
                    epubCheckResult = Some result, error = None, epubOutputPath = out\<rparr>
             (st\<lparr>disk := fs'\<rparr>))"
  using assms by (cases "save c") (simp_all add: onClose_def Let_def)

lemma onClose_exit_code:
  assumes "\<not> timedOut st"
      and "readFileSync (jsonTmpFile c) (disk st) = Some content"
      and "parseJson content = Value (Some result)"
  shows "onClose P parseJson c (Some k1) st = onClose P parseJson c (Some k2) st"
  using assms by (simp add: onClose_def Let_def)

lemma hasErrors_iff:
  "hasErrors result = (\<exists>m\<in>set (messages result). severity m = ''FATAL'' \<or> severity m = ''ERROR'')"
  by (simp add: hasErrors_def list_ex_iff)

lemma run_parsed:
  assumes init: "runSetup P env dir sv fs = (c, args, fs1)"
      and child: "spawn env (javaPath c) args (timeout c * 1000) (files fs1) =
                    (written, map StderrData chunks @ [CloseEvent (Some k)])"
      and json: "written (jsonTmpFile c) = Some content"
      and parsed: "parseJson content = Value (Some result)"
      and fin: "sv \<longrightarrow> finite (dom written) \<and>
                 inj_on (candidateName P (dirname P (getDefaultEpubPath P dir))
                           (basenameExt P (getDefaultEpubPath P dir)
                              (extname P (getDefaultEpubPath P dir)))
                           (extname P (getDefaultEpubPath P dir))) {2..}"
  shows "\<exists>out fs'. run P parseJson env dir sv fs =
           Some (Some \<lparr>success = \<not> hasErrors result, epubDir = dir,
                        epubCheckResult = Some result, error = None, epubOutputPath = out\<rparr>,
                 fs')"
proof -
  let ?st = "\<lparr>disk = fs1\<lparr>files := written\<rparr>, stderrBuf = [] @ concat chunks, timedOut = False,
              resolved = None\<rparr>"
  let ?d = "cleanupTmpFile (jsonTmpFile c) (disk ?st)"
  note f = runSetup_fields[OF init]
  have find: "finite (dom (files ?d))" if sv
    using that fin by (intro cleanupTmpFile_finite) simp
  have "\<exists>out fs'. (if save c
            then findGeneratedEpub P (projectDir c) (defaultEpubPath c) (protectedPath c) ?d
            else Some (None, ?d)) = Some (out, fs')"
  proof (cases sv)
    case True
    with find fin f(4) have "\<forall>tp. defaultEpubPath c = Some tp \<longrightarrow> finite (dom (files ?d)) \<and>
       inj_on (candidateName P (dirname P tp) (basenameExt P tp (extname P tp)) (extname P tp)) {2..}"
      by simp
    from findGeneratedEpub_returns[OF this] True f(2) show ?thesis by simp
  next
    case False
    with f(2) show ?thesis by simp
  qed
  then obtain out fs' where o: "(if save c
            then findGeneratedEpub P (projectDir c) (defaultEpubPath c) (protectedPath c) ?d
            else Some (None, ?d)) = Some (out, fs')" by blast
  have "onClose P parseJson c (Some k) ?st =
     Some (resolve \<lparr>success = \<not> hasErrors result, epubDir = projectDir c,
                    epubCheckResult = Some result, error = None, epubOutputPath = out\<rparr>
             (?st\<lparr>disk := fs'\<rparr>))"
  proof (rule onClose_parsed[where content = content and result = result])
    show "\<not> timedOut ?st" by simp
    show "readFileSync (jsonTmpFile c) (disk ?st) = Some content"
      by (simp add: readFileSync_def json)
    show "parseJson content = Value (Some result)" by (rule parsed)
    show "(if save c
            then findGeneratedEpub P (projectDir c) (defaultEpubPath c) (protectedPath c) ?d
            else Some (None, ?d)) = Some (out, fs')" by (rule o)
  qed
  then have "run P parseJson env dir sv fs =
     Some (Some \<lparr>success = \<not> hasErrors result, epubDir = projectDir c,
                    epubCheckResult = Some result, error = None, epubOutputPath = out\<rparr>, fs')"
    by (simp add: run_def init child dispatch_stderr dispatch_close resolve_def)
  then show ?thesis by (simp add: f(1))
qed



text \<open>
  Claim C4. Take a run of \<open>run\<close> whose child process emits output on standard error
  and then closes with an exit code \<open>k\<close>, leaving a result file that is read and parsed
  as a result. (When an artifact is requested, the file system is finite and distinct
  counters give distinct candidate names, so that the restore step returns.) Then the
  run returns an outcome, and its \<open>success\<close> is true exactly when no message of the
  parsed result has severity FATAL or ERROR.
\<close>

theorem run_success_iff:
  assumes init: "runSetup P env dir sv fs = (c, args, fs1)"
      and child: "spawn env (javaPath c) args (timeout c * 1000) (files fs1) =
                    (written, map StderrData chunks @ [CloseEvent (Some k)])"
      and json: "written (jsonTmpFile c) = Some content"
      and parsed: "parseJson content = Value (Some result)"
      and fin: "sv \<longrightarrow> finite (dom written) \<and>
                 inj_on (candidateName P (dirname P (getDefaultEpubPath P dir))
                           (basenameExt P (getDefaultEpubPath P dir)
                              (extname P (getDefaultEpubPath P dir)))
                           (extname P (getDefaultEpubPath P dir))) {2..}"
  shows "\<exists>r fs'. run P parseJson env dir sv fs = Some (Some r, fs') \<and>
           success r =
             (\<not> (\<exists>m\<in>set (messages result). severity m = ''FATAL'' \<or> severity m = ''ERROR'')) \<and>
           epubCheckResult r = Some result \<and> error r = None"
proof -
  from run_parsed[where written = written and parseJson = parseJson and content = content,
         OF init child json parsed fin] obtain out fs' where
    "run P parseJson env dir sv fs =
           Some (Some \<lparr>success = \<not> hasErrors result, epubDir = dir,
                        epubCheckResult = Some result, error = None, epubOutputPath = out\<rparr>,
                 fs')" by blast
  then show ?thesis by (simp add: hasErrors_iff)
qed

lemma showNat_42: "showNat 42 = ''42''" by (simp add: showNat.simps)
lemma showNat_41: "showNat 41 = ''41''" by (simp add: showNat.simps)

lemma join_posix: "join posix a b = posixJoin a b"
  by (simp add: posix_def)

lemma default_my_book: "getDefaultEpubPath posix ''/t/my-book'' = ''/t/my-book.epub''"
  by (simp add: getDefaultEpubPath_def posix_def posixBasename_def posixDirname_def posixJoin_def)

lemma protect_existing:
  "protectExistingEpub posix 42 (Some ''/t/my-book.epub'') existingFs =
     (Some ''/t/.epubcheck-protect-42.epub'', protectedFs)"
  by (simp add: protectExistingEpub_def existingFs_def existsSync_def renameSync_def nextFault_def
        consume_def showNat_42 posix_def posixBasename_def posixDirname_def posixJoin_def
        posixExtname_def Let_def protectedFs_def)

lemma runSetup_demo:
  "runSetup posix (stubEnv w evs) ''/t/my-book'' True existingFs =
     (demoClosure,
      [''-jar'', ''/opt/epubcheck.jar'', ''-mode'', ''exp'', ''/t/my-book'', ''--json'',
       ''/tmp/epubcheck-41.json'', ''--save''],
      protectedFs)"
  by (simp add: runSetup_def stubEnv_def default_my_book protect_existing join_posix
        posixJoin_def showNat_41 Let_def demoClosure_def)


lemma spawn_stub: "spawn (stubEnv w evs) java args ms m = (w m, evs)"
  by (simp add: stubEnv_def)

lemma inj_my_book: "inj_on (candidateName posix (dirname posix ''/t/my-book.epub'')
      (basenameExt posix ''/t/my-book.epub'' (extname posix ''/t/my-book.epub''))
      (extname posix ''/t/my-book.epub'')) {2..}"
  by (rule inj_onI) (simp add: candidate_my_book showNat_inj)

theorem run_success_iff_witness:
  "\<exists>r fs'. run posix (\<lambda>content. Value (Some (demoResult ''WARNING'')))
             (stubEnv toolWrites [StderrData ''note'', CloseEvent (Some 1)])
             ''/t/my-book'' True existingFs = Some (Some r, fs') \<and>
           success r \<and> epubCheckResult r = Some (demoResult ''WARNING'')"
proof -
  have child: "spawn (stubEnv toolWrites [StderrData ''note'', CloseEvent (Some 1)])
                 (javaPath demoClosure)
                 [''-jar'', ''/opt/epubcheck.jar'', ''-mode'', ''exp'', ''/t/my-book'', ''--json'',
                  ''/tmp/epubcheck-41.json'', ''--save'']
                 (timeout demoClosure * 1000) (files protectedFs) =
               (toolWrites (files protectedFs), map StderrData [''note''] @ [CloseEvent (Some 1)])"
    by (simp add: spawn_stub)
  have json: "toolWrites (files protectedFs) (jsonTmpFile demoClosure) = Some ''{}''"
    by (simp add: toolWrites_def demoClosure_def)
  have fin: "True \<longrightarrow> finite (dom (toolWrites (files protectedFs))) \<and>
              inj_on (candidateName posix (dirname posix (getDefaultEpubPath posix ''/t/my-book''))
                 (basenameExt posix (getDefaultEpubPath posix ''/t/my-book'')
                    (extname posix (getDefaultEpubPath posix ''/t/my-book'')))
                 (extname posix (getDefaultEpubPath posix ''/t/my-book''))) {2..}"
    by (simp add: toolWrites_def protectedFs_def default_my_book inj_my_book)
  from run_success_iff[where parseJson = "\<lambda>content. Value (Some (demoResult ''WARNING''))"
         and written = "toolWrites (files protectedFs)" and content = "''{}''",
         OF runSetup_demo child json refl fin]
  obtain r fs' where "run posix (\<lambda>content. Value (Some (demoResult ''WARNING'')))
             (stubEnv toolWrites [StderrData ''note'', CloseEvent (Some 1)])
             ''/t/my-book'' True existingFs = Some (Some r, fs')"
    and "success r =
      (\<not> (\<exists>m\<in>set (messages (demoResult ''WARNING'')).
             severity m = ''FATAL'' \<or> severity m = ''ERROR''))"
    and "epubCheckResult r = Some (demoResult ''WARNING'')"
    by blast
  moreover have "\<not> (\<exists>m\<in>set (messages (demoResult ''WARNING'')).
             severity m = ''FATAL'' \<or> severity m = ''ERROR'')"
    by (simp add: demoResult_def)
  ultimately show ?thesis by blast
qed










lemma runSetup_spawn:
  "runSetup P (env\<lparr>spawn := sp\<rparr>) dir sv fs = runSetup P env dir sv fs"
  by (simp add: runSetup_def)

lemma run_closed:
  assumes init: "runSetup P env dir sv fs = (c, args, fs1)"
      and child: "spawn env (javaPath c) args (timeout c * 1000) (files fs1) =
                    (written, map StderrData chunks @ [CloseEvent exitCode])"
  shows "run P parseJson env dir sv fs =
     map_option (\<lambda>st. (resolved st, disk st))
       (onClose P parseJson c exitCode
          \<lparr>disk = fs1\<lparr>files := written\<rparr>, stderrBuf = [] @ concat chunks, timedOut = False,
           resolved = None\<rparr>)"
  by (simp add: run_def init child dispatch_stderr split: option.splits)

lemma run_parse_failure:
  assumes init: "runSetup P env dir sv fs = (c, args, fs1)"
      and child: "spawn env (javaPath c) args (timeout c * 1000) (files fs1) =
                    (written, map StderrData chunks @ [CloseEvent (Some k)])"
      and bad: "\<not> (\<exists>content result. written (jsonTmpFile c) = Some content \<and>
                   parseJson content = Value (Some result))"
  shows "\<exists>fs'. run P parseJson env dir sv fs =
     Some (Some \<lparr>success = False, epubDir = dir, epubCheckResult = None,
                  error = Some (''EPUBCheck failed to produce valid output.'' @
                    (if concat chunks \<noteq> []
                     then [CHR 0x0A] @ ''Details: '' @ trim P (concat chunks) else []) @
                    (if k \<noteq> 0 then [CHR 0x0A] @ ''Exit code: '' @ showInt k else [])),
                  epubOutputPath = None\<rparr>, fs')"
proof -
  note f = runSetup_fields[OF init]
  show ?thesis
  proof (cases "written (jsonTmpFile c)")
    case None
    then show ?thesis
      by (simp add: run_closed[OF init child] onClose_def readFileSync_def parseFailure_def
            resolve_def Let_def f(1))
  next
    case (Some content)
    with bad have "parseJson content = SyntaxError \<or> parseJson content = Value None"
      by (cases "parseJson content") auto
    with Some show ?thesis
      by (auto simp: run_closed[OF init child] onClose_def readFileSync_def parseFailure_def
            resolve_def Let_def f(1))
  qed
qed

text \<open>
  Claim C9. Take two runs of \<open>run\<close> that differ only in the exit code with which the
  child process closes, both leaving the same result file that is read and parsed as a
  result. The two runs are equal: same outcome, same files. When the parsed result has
  no FATAL or ERROR message the outcome is successful and carries no error text,
  whatever the exit code (given that the restore step returns, as in C4). The exit code
  is surfaced by the parse-failure branch: a run from the same start whose child closes
  with an exit code, without a result file that is read and parsed as a result, returns
  a failed outcome whose error text ends with the exit code when it is not 0 (after the
  trimmed standard error output, when there is some).
\<close>

theorem run_exit_code_irrelevant:
  assumes init: "runSetup P env dir sv fs = (c, args, fs1)"
      and child1: "spawn env (javaPath c) args (timeout c * 1000) (files fs1) =
                    (written, map StderrData chunks @ [CloseEvent (Some k1)])"
      and child2: "spawn env2 (javaPath c) args (timeout c * 1000) (files fs1) =
                    (written, map StderrData chunks @ [CloseEvent (Some k2)])"
      and same: "env2 = env\<lparr>spawn := spawn env2\<rparr>"
      and json: "written (jsonTmpFile c) = Some content"
      and parsed: "parseJson content = Value (Some result)"
  shows "run P parseJson env2 dir sv fs = run P parseJson env dir sv fs \<and>
     ((sv \<longrightarrow> finite (dom written) \<and>
                 inj_on (candidateName P (dirname P (getDefaultEpubPath P dir))
                           (basenameExt P (getDefaultEpubPath P dir)
                              (extname P (getDefaultEpubPath P dir)))
                           (extname P (getDefaultEpubPath P dir))) {2..}) \<and>
      \<not> (\<exists>m\<in>set (messages result). severity m = ''FATAL'' \<or> severity m = ''ERROR'')
      \<longrightarrow> (\<exists>r fs'. run P parseJson env2 dir sv fs = Some (Some r, fs') \<and>
                    success r \<and> error r = None)) \<and>
     (\<forall>env3 written3 chunks3 k3.
        env3 = env\<lparr>spawn := spawn env3\<rparr> \<and>
        spawn env3 (javaPath c) args (timeout c * 1000) (files fs1) =
          (written3, map StderrData chunks3 @ [CloseEvent (Some k3)]) \<and>
        \<not> (\<exists>content3 result3. written3 (jsonTmpFile c) = Some content3 \<and>
               parseJson content3 = Value (Some result3))
        \<longrightarrow> (\<exists>fs'. run P parseJson env3 dir sv fs =
               Some (Some \<lparr>success = False, epubDir = dir, epubCheckResult = None,
                      error = Some (''EPUBCheck failed to produce valid output.'' @
                        (if concat chunks3 \<noteq> []
                         then [CHR 0x0A] @ ''Details: '' @ trim P (concat chunks3) else []) @
                        (if k3 \<noteq> 0 then [CHR 0x0A] @ ''Exit code: '' @ showInt k3 else [])),
                      epubOutputPath = None\<rparr>, fs')))"
proof (intro conjI impI allI)
  let ?st = "\<lparr>disk = fs1\<lparr>files := written\<rparr>, stderrBuf = [] @ concat chunks, timedOut = False,
           resolved = None\<rparr>"
  have init2: "runSetup P env2 dir sv fs = (c, args, fs1)"
    by (subst same) (simp only: runSetup_spawn init)
  have "onClose P parseJson c (Some k2) ?st = onClose P parseJson c (Some k1) ?st"
    by (rule onClose_exit_code[where content = content and result = result])
       (simp_all add: readFileSync_def json parsed)
  then show "run P parseJson env2 dir sv fs = run P parseJson env dir sv fs"
    by (simp only: run_closed[OF init child1] run_closed[OF init2 child2])
next
  assume h: "(sv \<longrightarrow> finite (dom written) \<and>
                 inj_on (candidateName P (dirname P (getDefaultEpubPath P dir))
                           (basenameExt P (getDefaultEpubPath P dir)
                              (extname P (getDefaultEpubPath P dir)))
                           (extname P (getDefaultEpubPath P dir))) {2..}) \<and>
      \<not> (\<exists>m\<in>set (messages result). severity m = ''FATAL'' \<or> severity m = ''ERROR'')"
  have init2: "runSetup P env2 dir sv fs = (c, args, fs1)"
    by (subst same) (simp only: runSetup_spawn init)
  from h have fin: "sv \<longrightarrow> finite (dom written) \<and>
                 inj_on (candidateName P (dirname P (getDefaultEpubPath P dir))
                           (basenameExt P (getDefaultEpubPath P dir)
                              (extname P (getDefaultEpubPath P dir)))
                           (extname P (getDefaultEpubPath P dir))) {2..}" ..
  from run_parsed[where written = written and parseJson = parseJson and content = content,
         OF init2 child2 json parsed fin] obtain out fs' where
    "run P parseJson env2 dir sv fs =
           Some (Some \<lparr>success = \<not> hasErrors result, epubDir = dir,
                        epubCheckResult = Some result, error = None, epubOutputPath = out\<rparr>,
                 fs')" by blast
  with h show "\<exists>r fs'. run P parseJson env2 dir sv fs = Some (Some r, fs') \<and>
                    success r \<and> error r = None"
    by (simp add: hasErrors_iff)
next
  fix env3 written3 chunks3 k3
  assume h: "env3 = env\<lparr>spawn := spawn env3\<rparr> \<and>
        spawn env3 (javaPath c) args (timeout c * 1000) (files fs1) =
          (written3, map StderrData chunks3 @ [CloseEvent (Some k3)]) \<and>
        \<not> (\<exists>content3 result3. written3 (jsonTmpFile c) = Some content3 \<and>
               parseJson content3 = Value (Some result3))"
  then have e3: "env3 = env\<lparr>spawn := spawn env3\<rparr>"
    and child3: "spawn env3 (javaPath c) args (timeout c * 1000) (files fs1) =
          (written3, map StderrData chunks3 @ [CloseEvent (Some k3)])"
    and bad: "\<not> (\<exists>content3 result3. written3 (jsonTmpFile c) = Some content3 \<and>
               parseJson content3 = Value (Some result3))"
    by blast+
  have init3: "runSetup P env3 dir sv fs = (c, args, fs1)"
    by (subst e3) (simp only: runSetup_spawn init)
  show "\<exists>fs'. run P parseJson env3 dir sv fs =
               Some (Some \<lparr>success = False, epubDir = dir, epubCheckResult = None,
                      error = Some (''EPUBCheck failed to produce valid output.'' @
                        (if concat chunks3 \<noteq> []
                         then [CHR 0x0A] @ ''Details: '' @ trim P (concat chunks3) else []) @
                        (if k3 \<noteq> 0 then [CHR 0x0A] @ ''Exit code: '' @ showInt k3 else [])),
                      epubOutputPath = None\<rparr>, fs')"
    by (rule run_parse_failure[where written = written3 and parseJson = parseJson,
               OF init3 child3 bad])
qed

theorem run_exit_code_irrelevant_witness:
  "run posix (\<lambda>content. Value (Some (demoResult ''WARNING'')))
     (stubEnv toolWrites [StderrData ''note'', CloseEvent (Some 1)]) ''/t/my-book'' True existingFs =
   run posix (\<lambda>content. Value (Some (demoResult ''WARNING'')))
     (stubEnv toolWrites [StderrData ''note'', CloseEvent (Some 0)]) ''/t/my-book'' True existingFs \<and>
   (\<exists>r fs'. run posix (\<lambda>content. Value (Some (demoResult ''WARNING'')))
       (stubEnv toolWrites [StderrData ''note'', CloseEvent (Some 1)]) ''/t/my-book'' True existingFs
       = Some (Some r, fs') \<and> success r \<and> error r = None) \<and>
   (\<exists>fs'. run posix (\<lambda>content. Value (Some (demoResult ''WARNING'')))
       (stubEnv writesNothing [StderrData ''note '', CloseEvent (Some 1)]) ''/t/my-book'' True
       existingFs
       = Some (Some \<lparr>success = False, epubDir = ''/t/my-book'', epubCheckResult = None,
                      error = Some (''EPUBCheck failed to produce valid output.'' @ [CHR 0x0A] @
                                ''Details: note'' @ [CHR 0x0A] @ ''Exit code: 1''),
                      epubOutputPath = None\<rparr>, fs'))"
proof -
  have child: "spawn (stubEnv toolWrites [StderrData ''note'', CloseEvent (Some k)])
                 (javaPath demoClosure)
                 [''-jar'', ''/opt/epubcheck.jar'', ''-mode'', ''exp'', ''/t/my-book'', ''--json'',
                  ''/tmp/epubcheck-41.json'', ''--save'']
                 (timeout demoClosure * 1000) (files protectedFs) =
               (toolWrites (files protectedFs), map StderrData [''note''] @ [CloseEvent (Some k)])"
    for k by (simp add: spawn_stub)
  have same: "stubEnv toolWrites [StderrData ''note'', CloseEvent (Some 1)] =
     (stubEnv toolWrites [StderrData ''note'', CloseEvent (Some 0)])
       \<lparr>spawn := spawn (stubEnv toolWrites [StderrData ''note'', CloseEvent (Some 1)])\<rparr>"
    by (simp add: stubEnv_def)
  have json: "toolWrites (files protectedFs) (jsonTmpFile demoClosure) = Some ''{}''"
    by (simp add: toolWrites_def demoClosure_def)
  have fin: "True \<longrightarrow> finite (dom (toolWrites (files protectedFs))) \<and>
              inj_on (candidateName posix (dirname posix (getDefaultEpubPath posix ''/t/my-book''))
                 (basenameExt posix (getDefaultEpubPath posix ''/t/my-book'')
                    (extname posix (getDefaultEpubPath posix ''/t/my-book'')))
                 (extname posix (getDefaultEpubPath posix ''/t/my-book''))) {2..}"
    by (simp add: toolWrites_def protectedFs_def default_my_book inj_my_book)
  have clean: "\<not> (\<exists>m\<in>set (messages (demoResult ''WARNING'')).
             severity m = ''FATAL'' \<or> severity m = ''ERROR'')"
    by (simp add: demoResult_def)
  note T = run_exit_code_irrelevant[where parseJson = "\<lambda>content. Value (Some (demoResult ''WARNING''))"
         and written = "toolWrites (files protectedFs)" and content = "''{}''",
         OF runSetup_demo child[of 0] child[of 1] same json refl]
  have same3: "stubEnv writesNothing [StderrData ''note '', CloseEvent (Some 1)] =
     (stubEnv toolWrites [StderrData ''note'', CloseEvent (Some 0)])
       \<lparr>spawn := spawn (stubEnv writesNothing [StderrData ''note '', CloseEvent (Some 1)])\<rparr>"
    by (simp add: stubEnv_def)
  have child3: "spawn (stubEnv writesNothing [StderrData ''note '', CloseEvent (Some 1)])
                 (javaPath demoClosure)
                 [''-jar'', ''/opt/epubcheck.jar'', ''-mode'', ''exp'', ''/t/my-book'', ''--json'',
                  ''/tmp/epubcheck-41.json'', ''--save'']
                 (timeout demoClosure * 1000) (files protectedFs) =
               (writesNothing (files protectedFs),
                map StderrData [''note ''] @ [CloseEvent (Some 1)])"
    by (simp add: spawn_stub)
  have bad3: "\<not> (\<exists>content3 result3.
                  writesNothing (files protectedFs) (jsonTmpFile demoClosure) = Some content3 \<and>
                  (\<lambda>content. Value (Some (demoResult ''WARNING''))) content3 =
                    Value (Some result3))"
    by (simp add: writesNothing_def protectedFs_def demoClosure_def)
  have trimmed: "trim posix ''note '' = ''note''"
    by (simp add: posix_def asciiTrim_def isWhiteSpace_def)
  have one: "showInt 1 = ''1''" by (simp add: showInt_def showNat.simps)
  from T[THEN conjunct2, THEN conjunct2,
         THEN spec[where x = "stubEnv writesNothing [StderrData ''note '', CloseEvent (Some 1)]"],
         THEN spec[where x = "writesNothing (files protectedFs)"],
         THEN spec[where x = "[''note '']"], THEN spec[where x = 1], THEN mp,
         OF conjI[OF same3 conjI[OF child3 bad3]]]
  have C: "\<exists>fs'. run posix (\<lambda>content. Value (Some (demoResult ''WARNING'')))
       (stubEnv writesNothing [StderrData ''note '', CloseEvent (Some 1)]) ''/t/my-book'' True
       existingFs
       = Some (Some \<lparr>success = False, epubDir = ''/t/my-book'', epubCheckResult = None,
                      error = Some (''EPUBCheck failed to produce valid output.'' @ [CHR 0x0A] @
                                ''Details: note'' @ [CHR 0x0A] @ ''Exit code: 1''),
                      epubOutputPath = None\<rparr>, fs')"
    by (simp add: trimmed one)
  from T[THEN conjunct1] T[THEN conjunct2, THEN conjunct1, rule_format, OF conjI[OF fin clean]] C
  show ?thesis by (intro conjI)
qed

section \<open>Outcomes of \<open>generateOnly\<close>\<close>



lemma showInt_1: "showInt 1 = ''1''" by (simp add: showInt_def showNat.simps)






section \<open>The backup after a timeout or a parse failure\<close>

lemma unique_my_book:
  assumes "files fs ''/t/my-book.epub'' \<noteq> None" "files fs ''/t/my-book (2).epub'' = None"
  shows "getUniquePath posix ''/t/my-book.epub'' fs = Some ''/t/my-book (2).epub''"
proof -
  have "uniqueLoop posix fs (dirname posix ''/t/my-book.epub'')
      (basenameExt posix ''/t/my-book.epub'' (extname posix ''/t/my-book.epub''))
      (extname posix ''/t/my-book.epub'') 2 = Some (candidateName posix (dirname posix ''/t/my-book.epub'')
      (basenameExt posix ''/t/my-book.epub'' (extname posix ''/t/my-book.epub''))
      (extname posix ''/t/my-book.epub'') 2)"
    using assms by (intro uniqueLoop_first_free) (simp_all add: candidate_my_book showNat_2 existsSync_def)
  with assms show ?thesis
    by (simp add: getUniquePath_def existsSync_def Let_def candidate_my_book showNat_2)
qed

text \<open>
  A run that parses its result file does restore the backup: the new artifact is at the
  canonical path and the original under the first free disambiguated name (Scenario B).
\<close>

lemma run_success_restores_backup:
  "\<exists>fs'. run posix (\<lambda>content. Value (Some (demoResult ''WARNING'')))
          (stubEnv toolWrites [CloseEvent (Some 0)]) ''/t/my-book'' True existingFs =
       Some (Some \<lparr>success = True, epubDir = ''/t/my-book'',
                    epubCheckResult = Some (demoResult ''WARNING''), error = None,
                    epubOutputPath = Some ''/t/my-book.epub''\<rparr>, fs') \<and>
     files fs' ''/t/my-book.epub'' = Some ''generated'' \<and>
     files fs' ''/t/my-book (2).epub'' = Some ''ORIGINAL'' \<and>
     files fs' ''/t/.epubcheck-protect-42.epub'' = None \<and>
     files fs' ''/tmp/epubcheck-41.json'' = None"
  unfolding run_def runSetup_demo
  by (simp add: spawn_stub toolWrites_def onClose_def readFileSync_def cleanupTmpFile_def
        unlinkSync_def existsSync_def nextFault_def consume_def protectedFs_def demoClosure_def
        findGeneratedEpub_def inside_my_book renameSync_def restoreProtectedEpub_def
        unique_my_book resolve_def hasErrors_def demoResult_def Let_def)



text \<open>
  Claim C1 fails on the code. With an artifact at the canonical path, a run that
  requests an artifact sets it aside under the hidden name. When the child process is
  killed on timeout (null exit code), or closes without a readable result file,
  \<open>run\<close> returns without calling \<open>findGeneratedEpub\<close>, the only caller of
  \<open>restoreProtectedEpub\<close>: the original stays under the hidden name and the canonical
  path is empty.
\<close>

theorem run_abandons_backup:
  "run posix parseJson (stubEnv writesNothing [CloseEvent None]) ''/t/my-book'' True existingFs =
     Some (Some (timedOutResult ''/t/my-book'' 120), protectedFs) \<and>
   run posix parseJson (stubEnv writesNothing [CloseEvent (Some 1)]) ''/t/my-book'' True existingFs =
     Some (Some \<lparr>success = False, epubDir = ''/t/my-book'', epubCheckResult = None,
                  error = Some (''EPUBCheck failed to produce valid output.'' @ [CHR 0x0A] @
                                ''Exit code: 1''),
                  epubOutputPath = None\<rparr>, protectedFs) \<and>
   files existingFs ''/t/my-book.epub'' = Some ''ORIGINAL'' \<and>
   files protectedFs ''/t/my-book.epub'' = None \<and>
   files protectedFs ''/t/.epubcheck-protect-42.epub'' = Some ''ORIGINAL''"
  unfolding run_def runSetup_demo
  by (simp add: spawn_stub writesNothing_def onClose_def parseFailure_def
        resolve_def cleanupTmpFile_def existsSync_def readFileSync_def demoClosure_def
        protectedFs_def existingFs_def timedOutResult_def showInt_1 Let_def)


section \<open>Severity mapping\<close>

text \<open>
  Claim C8. \<open>mapSeverity\<close> implements the fixed table: FATAL and ERROR map to Error,
  WARNING to Warning, USAGE to Information, INFO to Hint, and every other severity
  string to Error. It is a function of its argument alone, so the same severity gives
  the same level on every call.
\<close>

theorem mapSeverity_table:
  "mapSeverity ''FATAL'' = Error \<and>
   mapSeverity ''ERROR'' = Error \<and>
   mapSeverity ''WARNING'' = Warning \<and>
   mapSeverity ''USAGE'' = Information \<and>
   mapSeverity ''INFO'' = Hint \<and>
   (\<forall>sev. sev \<notin> {''FATAL'', ''ERROR'', ''WARNING'', ''USAGE'', ''INFO''}
            \<longrightarrow> mapSeverity sev = Error) \<and>
   (\<forall>s1 s2. s1 = s2 \<longrightarrow> mapSeverity s1 = mapSeverity s2)"
  by (simp add: mapSeverity_def)

theorem mapSeverity_table_witness:
  "''UNKNOWN'' \<notin> {''FATAL'', ''ERROR'', ''WARNING'', ''USAGE'', ''INFO''} \<and>
   mapSeverity ''UNKNOWN'' = Error \<and> mapSeverity ''INFO'' = Hint"
  using mapSeverity_table by simp

end
